theory Spec2Isabelle
  imports Complex_Main
begin

section \<open>Numbers, points and distances\<close>

text \<open>
  The program is JavaScript on top of p5.js (drawing, input) and Matter.js (rigid bodies).
  JavaScript numbers are modelled as the reals: every comparison and every arithmetic
  expression below is the one the source writes, read in exact arithmetic.

  Objects that carry an \<open>x\<close> and a \<open>y\<close> field (positions, velocities, forces, pockets,
  the table itself) share the selectors \<open>X\<close> and \<open>Y\<close> of the record \<open>vec\<close>; pockets and the
  table extend it with their further fields.
\<close>

record vec =
  X :: real
  Y :: real

text \<open>p5.js \<open>dist(x1, y1, x2, y2)\<close>: the Euclidean distance of two points.\<close>

definition distp :: "real \<Rightarrow> real \<Rightarrow> real \<Rightarrow> real \<Rightarrow> real" where
  "distp x1 y1 x2 y2 = sqrt ((x2 - x1) * (x2 - x1) + (y2 - y1) * (y2 - y1))"

text \<open>\<open>Math.sqrt(velocity.x * velocity.x + velocity.y * velocity.y)\<close>, written out in
  \<open>checkPocket\<close>, \<open>applyProfessionalDeceleration\<close>, \<open>isMoving\<close> and \<open>Cue.isAnyBallMoving\<close>.\<close>

definition speedOf :: "vec \<Rightarrow> real" where
  "speedOf velocity = sqrt (X velocity * X velocity + Y velocity * Y velocity)"

section \<open>The physics world (Matter.js)\<close>

text \<open>
  A Matter.js body, as far as the program reads and writes it. \<open>bodyId\<close> stands for the
  identity of the JavaScript object (Matter.js numbers its bodies). The world is the
  array \<open>world.bodies\<close>, here the list of the identities of the bodies in it.
\<close>

record body =
  bodyId :: nat
  position :: vec
  velocity :: vec
  angularVelocity :: real
  force :: vec

record world =
  bodies :: "nat list"
  nextBodyId :: nat

text \<open>\<open>Matter.Bodies.circle(x, y, radius, options)\<close>: a new body at rest at \<open>(x, y)\<close> with
  the next identity of Matter.js's counter (kept with the world here). The material
  constants of the options are read by the engine only.\<close>

definition Bodies_circle :: "world \<Rightarrow> real \<Rightarrow> real \<Rightarrow> body \<times> world" where
  "Bodies_circle w x y =
     (\<lparr>bodyId = nextBodyId w, position = \<lparr>X = x, Y = y\<rparr>, velocity = \<lparr>X = 0, Y = 0\<rparr>,
        angularVelocity = 0, force = \<lparr>X = 0, Y = 0\<rparr>\<rparr>,
      w\<lparr>nextBodyId := nextBodyId w + 1\<rparr>)"

text \<open>\<open>Matter.World.add(world, body)\<close> pushes the body onto \<open>world.bodies\<close>.\<close>

definition World_add :: "world \<Rightarrow> body \<Rightarrow> world" where
  "World_add w b = w\<lparr>bodies := bodies w @ [bodyId b]\<rparr>"

text \<open>\<open>Matter.World.remove(world, body)\<close> looks the body up with \<open>indexOf\<close> and splices that
  one entry out; when the body is not in the array nothing happens.\<close>

definition World_remove :: "world \<Rightarrow> body \<Rightarrow> world" where
  "World_remove w b = w\<lparr>bodies := remove1 (bodyId b) (bodies w)\<rparr>"

text \<open>\<open>Matter.Body.setVelocity\<close>, \<open>Matter.Body.setAngularVelocity\<close> and
  \<open>Matter.Body.applyForce(body, body.position, f)\<close>; the force is applied at the centre of
  the body, so it adds to the force accumulator and produces no torque.\<close>

definition Body_setVelocity :: "body \<Rightarrow> vec \<Rightarrow> body" where
  "Body_setVelocity b v = b\<lparr>velocity := v\<rparr>"

definition Body_setAngularVelocity :: "body \<Rightarrow> real \<Rightarrow> body" where
  "Body_setAngularVelocity b w = b\<lparr>angularVelocity := w\<rparr>"

definition Body_applyForce :: "body \<Rightarrow> vec \<Rightarrow> body" where
  "Body_applyForce b f = b\<lparr>force := \<lparr>X = X (force b) + X f, Y = Y (force b) + Y f\<rparr>\<rparr>"

section \<open>Ball.js\<close>

text \<open>The spin record that \<open>applySpinData\<close> stores in \<open>currentSpin\<close>.\<close>

record spin =
  english :: real
  followDraw :: real
  intensity :: real
  spinShotType :: string
  active :: bool
  timeApplied :: real

text \<open>
  A ball: its \<open>type\<close> string (\<open>btype\<close>), the pocketed flag, its physics body, the two
  decay constants the constructor and \<open>respawn\<close> set, and the spin of the last shot
  (\<open>None\<close> while \<open>currentSpin\<close> is undefined). Colour, point value, radius and start
  position are not read by any function modelled here.
\<close>

record ball =
  btype :: string
  isPocketed :: bool
  body :: body
  rollResistanceCoefficient :: real
  spinDecayRate :: real
  currentSpin :: "spin option"

text \<open>A pocket of the table: centre (\<open>X\<close>, \<open>Y\<close>), radius and \<open>type\<close> (\<open>''corner''\<close> or
  \<open>''middle''\<close>).\<close>

record pocket = vec +
  radius :: real
  ptype :: string

subsection \<open>checkPocket\<close>

text \<open>The threshold computed at the top of the loop body of \<open>checkPocket\<close>.\<close>

definition pocketThreshold :: "pocket \<Rightarrow> real \<Rightarrow> real" where
  "pocketThreshold pocket speed =
     (if ptype pocket = ''corner''
      then (if speed > 10 then radius pocket * 0.65 * 0.9
            else if speed > 5 then radius pocket * 0.65 * 0.95
            else radius pocket * 0.65)
      else (if speed > 10 then radius pocket * 0.7 * 0.85
            else if speed > 5 then radius pocket * 0.7 * 0.92
            else radius pocket * 0.7))"

text \<open>The \<open>for (let pocket of pockets)\<close> loop: \<open>continue\<close> goes on with the rest of the
  list, \<open>return true\<close> ends it, falling off the end returns false.\<close>

fun checkPocketLoop :: "vec \<Rightarrow> vec \<Rightarrow> real \<Rightarrow> pocket list \<Rightarrow> bool" where
  "checkPocketLoop pos vel speed [] = False"
| "checkPocketLoop pos vel speed (pocket # rest) =
     (let d = distp (X pos) (Y pos) (X pocket) (Y pocket) in
      if d < pocketThreshold pocket speed then
        (let toPocketX = X pocket - X pos;
             toPocketY = Y pocket - Y pos;
             dotProduct = X vel * toPocketX + Y vel * toPocketY
         in if dotProduct < - 2 \<and> speed > 5
            then checkPocketLoop pos vel speed rest
            else True)
      else checkPocketLoop pos vel speed rest)"

definition checkPocket :: "ball \<Rightarrow> pocket list \<Rightarrow> bool" where
  "checkPocket b pockets =
     checkPocketLoop (position (body b)) (velocity (body b))
       (speedOf (velocity (body b))) pockets"

subsection \<open>pocket\<close>

text \<open>\<open>pocket()\<close> sets the flag and removes the body from the world; it acts on the ball
  and on the global \<open>world\<close>.\<close>

definition pocket :: "ball \<times> world \<Rightarrow> ball \<times> world" where
  "pocket bw = (case bw of (b, w) \<Rightarrow> (b\<lparr>isPocketed := True\<rparr>, World_remove w (body b)))"

subsection \<open>applyProfessionalDeceleration and isMoving\<close>

text \<open>The test \<open>this.body\<close> of \<open>applyProfessionalDeceleration\<close> is true: the constructor and
  \<open>respawn\<close> always give the ball a body.\<close>

definition applyProfessionalDeceleration :: "ball \<Rightarrow> ball" where
  "applyProfessionalDeceleration b =
     (if \<not> isPocketed b then
        (let vel = velocity (body b);
             speed = speedOf vel
         in if speed > 0.05 then
              (let decelerationFactor0 = 1 - rollResistanceCoefficient b;
                   decelerationFactor1 =
                     (if speed < 2 then decelerationFactor0 - 0.0008
                      else if speed < 5 then decelerationFactor0 - 0.0004
                      else decelerationFactor0);
                   decelerationFactor = max 0.988 (min 0.9985 decelerationFactor1);
                   newVelocity = \<lparr>X = X vel * decelerationFactor, Y = Y vel * decelerationFactor\<rparr>;
                   body1 = Body_setVelocity (body b) newVelocity;
                   currentAngularVelocity = angularVelocity body1
               in if \<bar>currentAngularVelocity\<bar> > 0.01
                  then b\<lparr>body := Body_setAngularVelocity body1
                                     (currentAngularVelocity * spinDecayRate b)\<rparr>
                  else b\<lparr>body := body1\<rparr>)
            else if speed > 0 \<and> speed \<le> 0.05 then
              b\<lparr>body := Body_setAngularVelocity
                            (Body_setVelocity (body b) \<lparr>X = 0, Y = 0\<rparr>) 0\<rparr>
            else b)
      else b)"

definition isMoving :: "ball \<Rightarrow> bool" where
  "isMoving b = (speedOf (velocity (body b)) > 0.05)"

subsection \<open>Constructor, respawn, applyForce and spin data\<close>

text \<open>\<open>new Ball(x, y, radius, color, type, value)\<close> creates the body and adds it to the
  world.\<close>

definition Ball :: "world \<Rightarrow> real \<Rightarrow> real \<Rightarrow> string \<Rightarrow> ball \<times> world" where
  "Ball w x y type =
     (case Bodies_circle w x y of (bd, w1) \<Rightarrow>
        (\<lparr>btype = type, isPocketed = False, body = bd,
          rollResistanceCoefficient = 0.0012, spinDecayRate = 0.985, currentSpin = None\<rparr>,
         World_add w1 bd))"

text \<open>\<open>respawn(x, y)\<close>: clear the flag, remove the old body, make a new body at \<open>(x, y)\<close>,
  restore the constants, zero its velocities and add it to the world.\<close>

definition respawn :: "real \<Rightarrow> real \<Rightarrow> ball \<times> world \<Rightarrow> ball \<times> world" where
  "respawn x y bw =
     (case bw of (b, w) \<Rightarrow>
        (case Bodies_circle (World_remove w (body b)) x y of (bd, w1) \<Rightarrow>
           (let bd1 = Body_setAngularVelocity (Body_setVelocity bd \<lparr>X = 0, Y = 0\<rparr>) 0
            in (b\<lparr>isPocketed := False, body := bd1,
                  rollResistanceCoefficient := 0.0012, spinDecayRate := 0.985\<rparr>,
                World_add w1 bd1))))"

definition applyForce :: "ball \<Rightarrow> real \<Rightarrow> real \<Rightarrow> ball" where
  "applyForce b forceX forceY = b\<lparr>body := Body_applyForce (body b) \<lparr>X = forceX, Y = forceY\<rparr>\<rparr>"

text \<open>\<open>applySpinData(spinData)\<close>; \<open>now\<close> is the value of \<open>Date.now()\<close>. The default
  \<open>|| 0\<close> of the three numbers turns a zero into zero; the default \<open>|| 'normal'\<close> replaces
  an empty shot type.\<close>

definition applySpinData :: "ball \<Rightarrow> real \<Rightarrow> real \<Rightarrow> real \<Rightarrow> string \<Rightarrow> real \<Rightarrow> ball" where
  "applySpinData b eng fd inten stype now =
     b\<lparr>currentSpin := Some \<lparr>english = eng, followDraw = fd, intensity = inten,
                             spinShotType = (if stype = [] then ''normal'' else stype),
                             active = True, timeApplied = now\<rparr>\<rparr>"

text \<open>\<open>updateSpinPhysics()\<close>: the decay of the stored spin, from half a second after the
  shot.\<close>

definition updateSpinPhysics :: "ball \<Rightarrow> real \<Rightarrow> ball" where
  "updateSpinPhysics b now =
     (case currentSpin b of
        None \<Rightarrow> b
      | Some s \<Rightarrow>
          if active s then
            (let timeSinceApplied = now - timeApplied s in
             if timeSinceApplied > 500 then
               (let s1 = s\<lparr>intensity := intensity s * 0.995, english := english s * 0.998,
                           followDraw := followDraw s * 0.996\<rparr>
                in if intensity s1 < 0.01 then b\<lparr>currentSpin := Some (s1\<lparr>active := False\<rparr>)\<rparr>
                   else b\<lparr>currentSpin := Some s1\<rparr>)
             else b)
          else b)"

section \<open>SnookerTable.js\<close>

text \<open>The table: centre (\<open>X\<close>, \<open>Y\<close>), the dimensions the constructor derives from the
  width, and the six pockets. \<open>tableLength\<close> is the field \<open>length\<close>. The fields used for
  drawing and the cushion bodies are left out.\<close>

record table = vec +
  width :: real
  tableLength :: real
  ballRadius :: real
  cornerPocketRadius :: real
  middlePocketRadius :: real
  cushionWidth :: real
  playAreaX :: real
  playAreaY :: real
  playAreaWidth :: real
  playAreaLength :: real
  dRadius :: real
  balkLineY :: real
  pockets :: "pocket list"

definition initializePockets :: "table \<Rightarrow> pocket list" where
  "initializePockets t =
     (let cornerPocketOffset = cornerPocketRadius t * 0.3 in
      [\<lparr>X = X t - width t / 2 + cornerPocketOffset, Y = Y t - tableLength t / 2 + cornerPocketOffset,
         radius = cornerPocketRadius t, ptype = ''corner''\<rparr>,
       \<lparr>X = X t + width t / 2 - cornerPocketOffset, Y = Y t - tableLength t / 2 + cornerPocketOffset,
         radius = cornerPocketRadius t, ptype = ''corner''\<rparr>,
       \<lparr>X = X t - width t / 2 + cornerPocketOffset, Y = Y t + tableLength t / 2 - cornerPocketOffset,
         radius = cornerPocketRadius t, ptype = ''corner''\<rparr>,
       \<lparr>X = X t + width t / 2 - cornerPocketOffset, Y = Y t + tableLength t / 2 - cornerPocketOffset,
         radius = cornerPocketRadius t, ptype = ''corner''\<rparr>,
       \<lparr>X = X t - width t / 2, Y = Y t, radius = middlePocketRadius t, ptype = ''middle''\<rparr>,
       \<lparr>X = X t + width t / 2, Y = Y t, radius = middlePocketRadius t, ptype = ''middle''\<rparr>])"

definition SnookerTable :: "real \<Rightarrow> real \<Rightarrow> real \<Rightarrow> table" where
  "SnookerTable x y w =
     (let len = w * 2;
          br = w / 68;
          cw = w * 0.06 - 25 - 15;
          paX = x - w / 2 + cw;
          paY = y - len / 2 + cw;
          paW = w - 2 * cw;
          paL = len - 2 * cw;
          t = \<lparr>X = x, Y = y, width = w, tableLength = len, ballRadius = br,
               cornerPocketRadius = br * 3.27, middlePocketRadius = br * 3.96,
               cushionWidth = cw, playAreaX = paX, playAreaY = paY,
               playAreaWidth = paW, playAreaLength = paL,
               dRadius = paW / 6.1, balkLineY = paY + paL * 0.2927, pockets = []\<rparr>
      in t\<lparr>pockets := initializePockets t\<rparr>)"

definition isInDZone :: "table \<Rightarrow> real \<Rightarrow> real \<Rightarrow> bool" where
  "isInDZone t x y =
     (let dCenterX = X t;
          dCenterY = balkLineY t;
          distance = sqrt ((x - dCenterX)\<^sup>2 + (y - dCenterY)\<^sup>2)
      in distance \<le> dRadius t \<and> y \<ge> balkLineY t)"

text \<open>\<open>getRedBallPositions()\<close>: the inner loop \<open>for (col = 0; col <= row; col++)\<close> gives one
  row of the rack, the outer loop \<open>for (row = 0; row < 5; row++)\<close> pushes the rows one after
  the other onto \<open>positions\<close>.\<close>

definition rackPosition :: "table \<Rightarrow> nat \<Rightarrow> nat \<Rightarrow> vec" where
  "rackPosition t row col =
     (let pyramidSpotX = X t;
          pyramidSpotY = Y t + playAreaLength t * 0.25;
          ballSpacing = ballRadius t * 2.05
      in \<lparr>X = pyramidSpotX + (real col - real row / 2) * ballSpacing,
          Y = pyramidSpotY + real row * ballSpacing * 0.866\<rparr>)"

definition rackRow :: "table \<Rightarrow> nat \<Rightarrow> vec list" where
  "rackRow t row = map (rackPosition t row) [0..<row + 1]"

definition getRedBallPositions :: "table \<Rightarrow> vec list" where
  "getRedBallPositions t = concat (map (rackRow t) [0..<5])"

definition getBallSpot :: "table \<Rightarrow> string \<Rightarrow> vec" where
  "getBallSpot t ballType =
     (if ballType = ''yellow'' then \<lparr>X = playAreaX t + playAreaWidth t * 0.25, Y = balkLineY t\<rparr>
      else if ballType = ''green'' then \<lparr>X = playAreaX t + playAreaWidth t * 0.75, Y = balkLineY t\<rparr>
      else if ballType = ''brown'' then \<lparr>X = X t, Y = balkLineY t\<rparr>
      else if ballType = ''blue'' then \<lparr>X = X t, Y = Y t\<rparr>
      else if ballType = ''pink'' then \<lparr>X = X t, Y = Y t + playAreaLength t * 0.175\<rparr>
      else if ballType = ''black'' then \<lparr>X = X t, Y = playAreaY t + playAreaLength t * 0.875\<rparr>
      else \<lparr>X = X t, Y = Y t\<rparr>)"

section \<open>Cue.js\<close>

text \<open>p5.js \<open>constrain(n, low, high)\<close> and \<open>Math.atan2(y, x)\<close> (signed zeros apart).\<close>

definition constrain :: "real \<Rightarrow> real \<Rightarrow> real \<Rightarrow> real" where
  "constrain n low high = max (min n high) low"

definition atan2 :: "real \<Rightarrow> real \<Rightarrow> real" where
  "atan2 y x =
     (if x > 0 then arctan (y / x)
      else if x < 0 \<and> y \<ge> 0 then arctan (y / x) + pi
      else if x < 0 then arctan (y / x) - pi
      else if y > 0 then pi / 2
      else if y < 0 then - (pi / 2)
      else 0)"

text \<open>The cue controller. \<open>cuePower\<close> is the field \<open>power\<close>. The fields used for drawing
  only are left out.\<close>

record cue =
  isAiming :: bool
  isVisible :: bool
  angle :: real
  cuePower :: real
  maxPower :: real
  offset :: real
  pullback :: real
  maxPullback :: real
  contactPoint :: vec
  maxEnglish :: real
  maxFollowDraw :: real
  contactRadius :: real
  shotType :: string
  spinTransferEfficiency :: real
  englishCurveIntensity :: real
  spinApplicationDelay :: real

text \<open>\<open>new Cue(length, tipWidth, buttWidth)\<close>; the three arguments are drawing sizes.\<close>

definition Cue :: cue where
  "Cue = \<lparr>isAiming = False, isVisible = False, angle = 0, cuePower = 0.5, maxPower = 0.02,
           offset = 30, pullback = 0, maxPullback = 100, contactPoint = \<lparr>X = 0, Y = 0\<rparr>,
           maxEnglish = 0.8, maxFollowDraw = 0.9, contactRadius = 25, shotType = ''normal'',
           spinTransferEfficiency = 0.85, englishCurveIntensity = 0.12,
           spinApplicationDelay = 2\<rparr>"

text \<open>What \<open>showMessage\<close> is called with: a fixed text, the shot feedback (a text formatted
  from the shot type and the contact point) or the power display.\<close>

datatype message = Text string | ShotFeedback string vec | PowerMessage real

text \<open>The callbacks handed to \<open>setTimeout\<close>: the respawn of a potted colour (ball
  reference and spot) and the english curve of a shot (english amount and base force).
  A pending callback is kept with its delay in milliseconds.\<close>

datatype task = RespawnTask nat real real | EnglishCurveTask real real real

text \<open>\<open>Cue.isAnyBallMoving(balls)\<close>: the callback of \<open>balls.some\<close>.\<close>

definition Cue_isAnyBallMoving :: "ball list \<Rightarrow> bool" where
  "Cue_isAnyBallMoving bs =
     list_ex (\<lambda>ball. if isPocketed ball then False
                       else speedOf (velocity (body ball)) > 0.1) bs"

text \<open>In the methods below the argument \<open>cueBall\<close> is \<open>None\<close> for \<open>null\<close>.\<close>

definition startAiming :: "cue \<Rightarrow> ball option \<Rightarrow> ball list \<Rightarrow> cue" where
  "startAiming c cueBall bs =
     (case cueBall of
        None \<Rightarrow> c
      | Some cb \<Rightarrow>
          if \<not> isPocketed cb \<and> \<not> Cue_isAnyBallMoving bs
          then c\<lparr>isAiming := True, isVisible := True, pullback := 0\<rparr>
          else c)"

definition stopAiming :: "cue \<Rightarrow> cue" where
  "stopAiming c = c\<lparr>isAiming := False, pullback := 0\<rparr>"

definition hide :: "cue \<Rightarrow> cue" where
  "hide c = c\<lparr>isVisible := False, isAiming := False, pullback := 0\<rparr>"

definition updateAngle :: "cue \<Rightarrow> ball option \<Rightarrow> real \<Rightarrow> real \<Rightarrow> cue" where
  "updateAngle c cueBall mouseX mouseY =
     (case cueBall of
        None \<Rightarrow> c
      | Some cb \<Rightarrow>
          if \<not> isPocketed cb
          then (let pos = position (body cb)
                in c\<lparr>angle := atan2 (mouseY - Y pos) (mouseX - X pos)\<rparr>)
          else c)"

definition updatePullback :: "cue \<Rightarrow> ball option \<Rightarrow> real \<Rightarrow> real \<Rightarrow> cue" where
  "updatePullback c cueBall mouseX mouseY =
     (case cueBall of
        None \<Rightarrow> c
      | Some cb \<Rightarrow>
          if isAiming c \<and> \<not> isPocketed cb
          then (let pos = position (body cb);
                    distance = distp mouseX mouseY (X pos) (Y pos)
                in c\<lparr>pullback := constrain (distance - offset c) 0 (maxPullback c)\<rparr>)
          else c)"

definition adjustPower :: "cue \<Rightarrow> real \<Rightarrow> cue" where
  "adjustPower c delta = c\<lparr>cuePower := constrain (cuePower c + delta * 0.1) 0.1 1\<rparr>"

definition determineShotType :: "cue \<Rightarrow> cue" where
  "determineShotType c =
     (let absX = \<bar>X (contactPoint c)\<bar>;
          absY = \<bar>Y (contactPoint c)\<bar>
      in if absX < 0.1 \<and> absY < 0.1 then c\<lparr>shotType := ''stun''\<rparr>
         else if absY > 0.6
           then c\<lparr>shotType := (if Y (contactPoint c) > 0 then ''follow'' else ''draw'')\<rparr>
         else if absX > 0.5 then c\<lparr>shotType := ''english''\<rparr>
         else c\<lparr>shotType := ''normal''\<rparr>)"

definition setContactPoint :: "cue \<Rightarrow> ball option \<Rightarrow> real \<Rightarrow> real \<Rightarrow> cue" where
  "setContactPoint c cueBall mouseX mouseY =
     (case cueBall of
        None \<Rightarrow> c
      | Some cb \<Rightarrow>
          if \<not> isPocketed cb
          then (let pos = position (body cb);
                    relativeX = (mouseX - X pos) / contactRadius c;
                    relativeY = (mouseY - Y pos) / contactRadius c
                in determineShotType
                     (c\<lparr>contactPoint :=
                          \<lparr>X = constrain relativeX (- maxEnglish c) (maxEnglish c),
                           Y = constrain relativeY (- maxFollowDraw c) (maxFollowDraw c)\<rparr>\<rparr>))
          else c)"

text \<open>\<open>applyProfessionalSpin(cueBall, baseForceX, baseForceY)\<close>: the base force, the angular
  velocity, the spin data, and the english curve handed to \<open>setTimeout\<close>. It returns the
  cue ball and the callbacks it has scheduled.\<close>

definition applyProfessionalSpin ::
  "cue \<Rightarrow> ball \<Rightarrow> real \<Rightarrow> real \<Rightarrow> real \<Rightarrow> ball \<times> (real \<times> task) list" where
  "applyProfessionalSpin c cb baseForceX baseForceY now =
     (let cb1 = applyForce cb baseForceX baseForceY;
          horizontalSpin = X (contactPoint c) * spinTransferEfficiency c;
          verticalSpin = Y (contactPoint c) * spinTransferEfficiency c;
          spinIntensity = sqrt (baseForceX * baseForceX + baseForceY * baseForceY) * 200;
          englishSpin = horizontalSpin * spinIntensity;
          followDrawSpin = verticalSpin * spinIntensity;
          totalSpin = englishSpin + followDrawSpin * 0.6;
          cb2 = cb1\<lparr>body := Body_setAngularVelocity (body cb1) totalSpin\<rparr>;
          cb3 = applySpinData cb2 horizontalSpin verticalSpin spinIntensity (shotType c) now
      in (cb3,
          if \<bar>horizontalSpin\<bar> > 0.1
          then [(spinApplicationDelay c * 16.67,
                 EnglishCurveTask horizontalSpin baseForceX baseForceY)]
          else []))"

definition applyEnglishCurve :: "cue \<Rightarrow> ball option \<Rightarrow> real \<Rightarrow> ball option" where
  "applyEnglishCurve c cueBall englishAmount =
     (case cueBall of
        None \<Rightarrow> None
      | Some cb \<Rightarrow>
          if \<not> isPocketed cb
          then (let perpendicularAngle = angle c + pi / 2;
                    curveForce = englishAmount * englishCurveIntensity c * 0.001;
                    curveX = cos perpendicularAngle * curveForce;
                    curveY = sin perpendicularAngle * curveForce
                in Some (applyForce cb curveX curveY))
          else Some cb)"

definition displayShotFeedback :: "cue \<Rightarrow> message" where
  "displayShotFeedback c = ShotFeedback (shotType c) (contactPoint c)"

text \<open>\<open>shoot(cueBall)\<close> returns the cue, the cue ball, the message it shows (if any) and
  the callbacks it has scheduled.\<close>

definition shoot ::
  "cue \<Rightarrow> ball option \<Rightarrow> real \<Rightarrow> cue \<times> ball option \<times> message option \<times> (real \<times> task) list" where
  "shoot c cueBall now =
     (case cueBall of
        None \<Rightarrow> (c, None, None, [])
      | Some cb \<Rightarrow>
          if isAiming c \<and> \<not> isPocketed cb \<and> pullback c > 10 then
            (let forceMagnitude = (pullback c / maxPullback c) * cuePower c * maxPower c;
                 baseForceX = cos (angle c) * forceMagnitude;
                 baseForceY = sin (angle c) * forceMagnitude
             in case applyProfessionalSpin c cb baseForceX baseForceY now of
                  (cb1, scheduled) \<Rightarrow>
                    ((stopAiming c)\<lparr>isVisible := False\<rparr>, Some cb1,
                     Some (displayShotFeedback c), scheduled))
          else (c, Some cb, None, []))"

text \<open>\<open>show(cueBall)\<close>, apart from the drawing.\<close>

definition showCue :: "cue \<Rightarrow> ball option \<Rightarrow> cue" where
  "showCue c cueBall =
     (case cueBall of
        None \<Rightarrow> c
      | Some cb \<Rightarrow> if \<not> isPocketed cb then c\<lparr>isVisible := True\<rparr> else c)"

section \<open>sketch.js\<close>

text \<open>
  The global variables of the sketch. Ball objects live in \<open>heap\<close>, addressed by
  reference; the arrays \<open>balls\<close>, \<open>redBalls\<close> and \<open>coloredBalls\<close> and the variable \<open>cueBall\<close>
  hold references, as in the source, where one ball object is shared by \<open>balls\<close> and by one
  of the other three. \<open>cueBall\<close> is \<open>null\<close> only until \<open>setup()\<close> has run
  \<open>initializeBalls()\<close>, before any handler is called, so the handlers' tests \<open>cueBall &&\<close>
  are true. \<open>timers\<close> are the pending \<open>setTimeout\<close> callbacks; \<open>rng\<close> and \<open>rngPos\<close> are the
  stream of p5.js's random numbers in \<open>[0, 1)\<close> and the number of them drawn so far.
\<close>

record game =
  world :: world
  table :: table
  cue :: cue
  heap :: "nat \<Rightarrow> ball"
  balls :: "nat list"
  redBalls :: "nat list"
  coloredBalls :: "nat list"
  cueBall :: nat
  gameMode :: nat
  cueBallPlaced :: bool
  placingCueBall :: bool
  lastPottedBalls :: "string list"
  message :: message
  timers :: "(real \<times> task) list"
  rng :: "nat \<Rightarrow> real"
  rngPos :: nat

text \<open>p5.js \<open>random(min, max)\<close>.\<close>

definition random :: "game \<Rightarrow> real \<Rightarrow> real \<Rightarrow> real \<times> game" where
  "random g lo hi = (rng g (rngPos g) * (hi - lo) + lo, g\<lparr>rngPos := rngPos g + 1\<rparr>)"

definition showMessage :: "message \<Rightarrow> game \<Rightarrow> game" where
  "showMessage msg g = g\<lparr>message := msg\<rparr>"

text \<open>A method of \<open>Ball.js\<close> that acts on the world, called on the ball behind a
  reference.\<close>

definition onBall :: "(ball \<times> world \<Rightarrow> ball \<times> world) \<Rightarrow> nat \<Rightarrow> game \<Rightarrow> game" where
  "onBall method r g =
     (case method (heap g r, world g) of
        (b, w) \<Rightarrow> g\<lparr>heap := (heap g)(r := b), world := w\<rparr>)"

subsection \<open>Setting up the table\<close>

text \<open>\<open>initializeBalls()\<close>: every ball is created (which adds its body to the world) and
  its body is removed again at once. The references are given out in the order of
  creation: fifteen reds, the six colours, the cue ball.\<close>

definition createBall :: "string \<Rightarrow> nat \<Rightarrow> game \<Rightarrow> game" where
  "createBall type r g =
     (case Ball (world g) 0 0 type of
        (b, w) \<Rightarrow> g\<lparr>heap := (heap g)(r := b), balls := balls g @ [r],
                      world := World_remove w (body b)\<rparr>)"

definition initializeBalls :: "game \<Rightarrow> game" where
  "initializeBalls g =
     (let g1 = fold (\<lambda>r h. (createBall ''red'' r h)\<lparr>redBalls := redBalls h @ [r]\<rparr>) [0..<15] g;
          g2 = fold (\<lambda>(r, type) h. (createBall type r h)\<lparr>coloredBalls := coloredBalls h @ [r]\<rparr>)
                 [(15, ''yellow''), (16, ''green''), (17, ''brown''),
                  (18, ''blue''), (19, ''pink''), (20, ''black'')] g1
      in (createBall ''cue'' 21 g2)\<lparr>cueBall := 21\<rparr>)"

text \<open>\<open>setup()\<close> (here \<open>setupSketch\<close>): the state the sketch starts from, for a given
  stream of random numbers.\<close>

definition setupSketch :: "(nat \<Rightarrow> real) \<Rightarrow> game" where
  "setupSketch rnd =
     showMessage (Text ''Press 1, 2, or 3 to set up the table'')
       (initializeBalls
          \<lparr>world = \<lparr>bodies = [], nextBodyId = 0\<rparr>, table = SnookerTable (1100 / 2) (820 / 2) 400,
           cue = Cue, heap = (\<lambda>r. fst (Ball \<lparr>bodies = [], nextBodyId = 0\<rparr> 0 0 [])),
           balls = [], redBalls = [], coloredBalls = [],
           cueBall = 0, gameMode = 0, cueBallPlaced = False, placingCueBall = False,
           lastPottedBalls = [], message = Text [], timers = [], rng = rnd, rngPos = 0\<rparr>)"

definition clearAllBalls :: "game \<Rightarrow> game" where
  "clearAllBalls g =
     fold (\<lambda>r h.
             (let b = heap h r;
                  w = (if \<not> isPocketed b then World_remove (world h) (body b) else world h)
              in h\<lparr>world := w, heap := (heap h)(r := b\<lparr>isPocketed := False\<rparr>)\<rparr>))
       (balls g) g"

text \<open>The loop over \<open>balls\<close> and the loop over \<open>table.pockets\<close> of
  \<open>isValidBallPosition(x, y, ballToPlace)\<close>; \<open>return false\<close> ends the function.\<close>

fun ballsLoop :: "game \<Rightarrow> real \<Rightarrow> real \<Rightarrow> nat \<Rightarrow> nat list \<Rightarrow> bool" where
  "ballsLoop g x y ballToPlace [] = True"
| "ballsLoop g x y ballToPlace (r # rest) =
     (if r \<noteq> ballToPlace \<and> \<not> isPocketed (heap g r) \<and> r \<noteq> cueBall g then
        (let d = distp x y (X (position (body (heap g r)))) (Y (position (body (heap g r))))
         in if d < ballRadius (table g) * 2.5 then False
            else ballsLoop g x y ballToPlace rest)
      else ballsLoop g x y ballToPlace rest)"

fun pocketsLoop :: "game \<Rightarrow> real \<Rightarrow> real \<Rightarrow> pocket list \<Rightarrow> bool" where
  "pocketsLoop g x y [] = True"
| "pocketsLoop g x y (pkt # rest) =
     (let d = distp x y (X pkt) (Y pkt)
      in if d < radius pkt + ballRadius (table g) * 2 then False
         else pocketsLoop g x y rest)"

definition isValidBallPosition :: "game \<Rightarrow> real \<Rightarrow> real \<Rightarrow> nat \<Rightarrow> bool" where
  "isValidBallPosition g x y ballToPlace =
     (if \<not> ballsLoop g x y ballToPlace (balls g) then False
      else pocketsLoop g x y (pockets (table g)))"

text \<open>The body of \<open>redBalls.forEach\<close> in \<open>setupRandomReds\<close> and of the \<open>forEach\<close> in
  \<open>setupRandomAll\<close>: \<open>while (!placed && attempts < 100)\<close>. It returns the state and the
  final values of \<open>placed\<close> and \<open>attempts\<close>.\<close>

function placementLoop :: "nat \<Rightarrow> bool \<Rightarrow> nat \<Rightarrow> game \<Rightarrow> game \<times> bool \<times> nat" where
  "placementLoop r placed attempts g =
     (if \<not> placed \<and> attempts < 100 then
        (case random g (playAreaX (table g) + ballRadius (table g) * 2)
                (playAreaX (table g) + playAreaWidth (table g) - ballRadius (table g) * 2) of
           (x, g1) \<Rightarrow>
             (case random g1 (playAreaY (table g1) + ballRadius (table g1) * 2)
                     (playAreaY (table g1) + playAreaLength (table g1) - ballRadius (table g1) * 2) of
                (y, g2) \<Rightarrow>
                  if isValidBallPosition g2 x y r
                  then placementLoop r True (attempts + 1) (onBall (respawn x y) r g2)
                  else placementLoop r False (attempts + 1) g2))
      else (g, placed, attempts))"
  by pat_completeness auto
termination
  by (relation "measure (\<lambda>(r, placed, attempts, g). 100 - attempts)") auto

declare placementLoop.simps [simp del]

definition placeRandomly :: "nat \<Rightarrow> game \<Rightarrow> game" where
  "placeRandomly r g = fst (placementLoop r False 0 g)"

definition placeOnSpot :: "nat \<Rightarrow> game \<Rightarrow> game" where
  "placeOnSpot r g =
     (let spot = getBallSpot (table g) (btype (heap g r))
      in onBall (respawn (X spot) (Y spot)) r g)"

text \<open>\<open>setupStartingPosition()\<close>: red \<open>i\<close> goes to \<open>redPositions[i]\<close>; \<open>redBalls\<close> has fifteen
  entries, as many as there are positions.\<close>

definition setupStartingPosition :: "game \<Rightarrow> game" where
  "setupStartingPosition g =
     (let redPositions = getRedBallPositions (table g);
          g1 = fold (\<lambda>(r, p) h. onBall (respawn (X p) (Y p)) r h) (zip (redBalls g) redPositions) g
      in fold placeOnSpot (coloredBalls g1) g1)"

definition setupRandomReds :: "game \<Rightarrow> game" where
  "setupRandomReds g =
     (let g1 = fold placeOnSpot (coloredBalls g) g
      in fold placeRandomly (redBalls g1) g1)"

definition setupRandomAll :: "game \<Rightarrow> game" where
  "setupRandomAll g = fold placeRandomly (redBalls g @ coloredBalls g) g"

definition setupBallsMode :: "nat \<Rightarrow> game \<Rightarrow> game" where
  "setupBallsMode mode g =
     (let g1 = (clearAllBalls g)\<lparr>gameMode := mode\<rparr>;
          g2 = g1\<lparr>cue := stopAiming (hide (cue g1))\<rparr>;
          g3 = (if mode = 1 then
                  showMessage (Text ''Mode 1: Starting position - Click in D zone to place cue ball'')
                    (setupStartingPosition g2)
                else if mode = 2 then
                  showMessage (Text ''Mode 2: Random red balls - Click in D zone to place cue ball'')
                    (setupRandomReds g2)
                else if mode = 3 then
                  showMessage (Text ''Mode 3: Random all balls - Click in D zone to place cue ball'')
                    (setupRandomAll g2)
                else g2)
      in g3\<lparr>cueBallPlaced := False, placingCueBall := True\<rparr>)"

subsection \<open>Pocketed balls\<close>

text \<open>The text of the advisory that \<open>handlePocketedBall\<close> shows for two coloured balls
  potted in a row.\<close>

definition foulMessage :: message where
  "foulMessage = Text ''ERROR: Two consecutive colored balls potted!''"

definition handlePocketedBall :: "nat \<Rightarrow> game \<Rightarrow> game" where
  "handlePocketedBall r g =
     (if btype (heap g r) = ''cue'' then
        (let g1 = onBall pocket r g;
             g2 = g1\<lparr>cueBallPlaced := False, placingCueBall := True\<rparr>;
             g3 = showMessage (Text ''Cue ball pocketed! Place it back in the D zone'') g2
         in g3\<lparr>cue := hide (cue g3)\<rparr>)
      else if btype (heap g r) = ''red'' then
        showMessage (Text ''Red ball pocketed!'') (onBall pocket r g)
      else
        (let g1 = onBall pocket r g;
             spot = getBallSpot (table g1) (btype (heap g1 r));
             pushed = lastPottedBalls g1 @ [btype (heap g1 r)];
             g2 = g1\<lparr>lastPottedBalls := (if length pushed > 2 then tl pushed else pushed)\<rparr>;
             g3 = (if length (lastPottedBalls g2) = 2 \<and> ''red'' \<notin> set (lastPottedBalls g2)
                   then showMessage foulMessage g2
                   else showMessage (Text (btype (heap g2 r) @ '' ball pocketed! Respawning...'')) g2)
         in g3\<lparr>timers := timers g3 @ [(1000, RespawnTask r (X spot) (Y spot))]\<rparr>))"

definition checkPocketedBalls :: "game \<Rightarrow> game" where
  "checkPocketedBalls g =
     fold (\<lambda>r h. if \<not> isPocketed (heap h r) \<and> checkPocket (heap h r) (pockets (table h))
                  then handlePocketedBall r h else h)
       (balls g) g"

definition isAnyBallMoving :: "game \<Rightarrow> bool" where
  "isAnyBallMoving g = list_ex (\<lambda>r. \<not> isPocketed (heap g r) \<and> isMoving (heap g r)) (balls g)"

subsection \<open>Input handlers\<close>

definition mousePressed :: "real \<Rightarrow> real \<Rightarrow> game \<Rightarrow> game" where
  "mousePressed mouseX mouseY g =
     (if placingCueBall g \<and> isInDZone (table g) mouseX mouseY then
        (if isValidBallPosition g mouseX mouseY (cueBall g) then
           (let g1 = onBall (respawn mouseX mouseY) (cueBall g) g;
                g2 = g1\<lparr>cueBallPlaced := True, placingCueBall := False\<rparr>;
                g3 = g2\<lparr>cue := updateAngle ((cue g2)\<lparr>isVisible := True\<rparr>)
                                 (Some (heap g2 (cueBall g2))) mouseX mouseY\<rparr>
            in showMessage (Text ''Cue ball placed! Click and drag to aim and shoot'') g3)
         else showMessage (Text ''Invalid position! Too close to other balls'') g)
      else if cueBallPlaced g \<and> \<not> placingCueBall g \<and> \<not> isAnyBallMoving g then
        g\<lparr>cue := startAiming (cue g) (Some (heap g (cueBall g))) (map (heap g) (balls g))\<rparr>
      else g)"

definition mouseMoved :: "real \<Rightarrow> real \<Rightarrow> bool \<Rightarrow> game \<Rightarrow> game" where
  "mouseMoved mouseX mouseY shiftDown g =
     (if isAiming (cue g) \<and> cueBallPlaced g then
        (let c1 = updateAngle (cue g) (Some (heap g (cueBall g))) mouseX mouseY
         in if shiftDown
            then g\<lparr>cue := setContactPoint c1 (Some (heap g (cueBall g))) mouseX mouseY\<rparr>
            else g\<lparr>cue := c1\<rparr>)
      else g)"

definition mouseDragged :: "real \<Rightarrow> real \<Rightarrow> game \<Rightarrow> game" where
  "mouseDragged mouseX mouseY g =
     (if isAiming (cue g) then
        g\<lparr>cue := updatePullback
                    (updateAngle (cue g) (Some (heap g (cueBall g))) mouseX mouseY)
                    (Some (heap g (cueBall g))) mouseX mouseY\<rparr>
      else g)"

text \<open>\<open>mouseReleased()\<close>; \<open>now\<close> is the value of \<open>Date.now()\<close> at the call.\<close>

definition mouseReleased :: "real \<Rightarrow> game \<Rightarrow> game" where
  "mouseReleased now g =
     (if isAiming (cue g) then
        (case shoot (cue g) (Some (heap g (cueBall g))) now of
           (c, cb, msg, scheduled) \<Rightarrow>
             g\<lparr>cue := c,
               heap := (case cb of None \<Rightarrow> heap g | Some b \<Rightarrow> (heap g)(cueBall g := b)),
               message := (case msg of None \<Rightarrow> message g | Some m \<Rightarrow> m),
               timers := timers g @ scheduled\<rparr>)
      else g)"

text \<open>\<open>keyPressed()\<close>: the keys the handler tells apart.\<close>

datatype keyInput = Digit1 | Digit2 | Digit3 | UpArrow | DownArrow | OtherKey

fun keyPressed :: "keyInput \<Rightarrow> game \<Rightarrow> game" where
  "keyPressed Digit1 g = setupBallsMode 1 g"
| "keyPressed Digit2 g = setupBallsMode 2 g"
| "keyPressed Digit3 g = setupBallsMode 3 g"
| "keyPressed UpArrow g =
     (let g1 = g\<lparr>cue := adjustPower (cue g) 1\<rparr> in showMessage (PowerMessage (cuePower (cue g1))) g1)"
| "keyPressed DownArrow g =
     (let g1 = g\<lparr>cue := adjustPower (cue g) (- 1)\<rparr> in showMessage (PowerMessage (cuePower (cue g1))) g1)"
| "keyPressed OtherKey g = g"

subsection \<open>The frame loop and the timers\<close>

text \<open>\<open>draw()\<close> after \<open>Engine.update\<close>, apart from the drawing: deceleration and spin decay
  of every ball on the table, the pocket check, and the cue made visible when a shot can
  be taken.\<close>

definition draw :: "real \<Rightarrow> real \<Rightarrow> real \<Rightarrow> game \<Rightarrow> game" where
  "draw now mouseX mouseY g =
     (let g1 = fold (\<lambda>r h. if \<not> isPocketed (heap h r)
                            then h\<lparr>heap := (heap h)
                                     (r := updateSpinPhysics (applyProfessionalDeceleration (heap h r)) now)\<rparr>
                            else h)
                 (balls g) g;
          g2 = checkPocketedBalls g1
      in if cueBallPlaced g2 \<and> \<not> placingCueBall g2 \<and> \<not> isAnyBallMoving g2 then
           (let c1 = (cue g2)\<lparr>isVisible := True\<rparr>;
                c2 = (if \<not> isAiming c1
                      then updateAngle c1 (Some (heap g2 (cueBall g2))) mouseX mouseY else c1)
            in g2\<lparr>cue := showCue c2 (Some (heap g2 (cueBall g2)))\<rparr>)
         else g2)"

text \<open>A \<open>setTimeout\<close> callback that fires.\<close>

fun runTask :: "task \<Rightarrow> game \<Rightarrow> game" where
  "runTask (RespawnTask r x y) g = onBall (respawn x y) r g"
| "runTask (EnglishCurveTask englishAmount baseForceX baseForceY) g =
     (case applyEnglishCurve (cue g) (Some (heap g (cueBall g))) englishAmount of
        None \<Rightarrow> g
      | Some b \<Rightarrow> g\<lparr>heap := (heap g)(cueBall g := b)\<rparr>)"

text \<open>
  \<open>Engine.update\<close> and the collision handlers it calls (with their own delayed callbacks)
  belong to the physics engine: they move the bodies of the balls and show messages, and
  touch nothing else of the state modelled here. One such step relates \<open>g\<close> to any \<open>g'\<close>
  that differs from it in the bodies (identities kept) and in the message only.
\<close>

definition physicsStep :: "game \<Rightarrow> game \<Rightarrow> bool" where
  "physicsStep g g' =
     (\<exists>h m. g' = g\<lparr>heap := h, message := m\<rparr> \<and>
            (\<forall>r. \<exists>bd. h r = (heap g r)\<lparr>body := bd\<rparr> \<and> bodyId bd = bodyId (body (heap g r))))"

text \<open>The states the sketch can be in: \<open>setup()\<close>, then any sequence of input events,
  frames, physics steps and timer callbacks.\<close>

inductive reachable :: "game \<Rightarrow> bool" where
  start: "reachable (setupSketch rnd)"
| key: "reachable g \<Longrightarrow> reachable (keyPressed k g)"
| pressed: "reachable g \<Longrightarrow> reachable (mousePressed mouseX mouseY g)"
| moved: "reachable g \<Longrightarrow> reachable (mouseMoved mouseX mouseY shiftDown g)"
| dragged: "reachable g \<Longrightarrow> reachable (mouseDragged mouseX mouseY g)"
| released: "reachable g \<Longrightarrow> reachable (mouseReleased now g)"
| physics: "reachable g \<Longrightarrow> physicsStep g g' \<Longrightarrow> reachable g'"
| frame: "reachable g \<Longrightarrow> reachable (draw now mouseX mouseY g)"
| timer: "reachable g \<Longrightarrow> (delay, t) \<in> set (timers g) \<Longrightarrow>
          reachable (runTask t (g\<lparr>timers := remove1 (delay, t) (timers g)\<rparr>))"

section \<open>Definitions for the proofs\<close>


text \<open>The two draws of one attempt of the placement loop.\<close>

definition drawX :: "game \<Rightarrow> real" where
  "drawX g = rng g (rngPos g) *
       (playAreaX (table g) + playAreaWidth (table g) - ballRadius (table g) * 2 -
        (playAreaX (table g) + ballRadius (table g) * 2)) +
     (playAreaX (table g) + ballRadius (table g) * 2)"

definition drawY :: "game \<Rightarrow> real" where
  "drawY g = rng g (rngPos g + 1) *
       (playAreaY (table g) + playAreaLength (table g) - ballRadius (table g) * 2 -
        (playAreaY (table g) + ballRadius (table g) * 2)) +
     (playAreaY (table g) + ballRadius (table g) * 2)"



text \<open>A world that holds no body twice and only bodies that Matter.js has numbered
  already.\<close>

definition worldOk :: "world \<Rightarrow> bool" where
  "worldOk w = (distinct (bodies w) \<and> (\<forall>i\<in>set (bodies w). i < nextBodyId w))"

section \<open>Concrete tables, balls and states\<close>

text \<open>The table of the sketch: \<open>new SnookerTable(width / 2, height / 2, 400)\<close> on the canvas
  of 1100 by 820.\<close>

definition table0 :: table where
  "table0 = SnookerTable 550 410 400"

text \<open>A red ball on the table at \<open>(x, y)\<close> with velocity \<open>(vx, vy)\<close> and angular velocity
  \<open>w\<close>, with the constants of the constructor.\<close>

definition ballAt :: "real \<Rightarrow> real \<Rightarrow> real \<Rightarrow> real \<Rightarrow> real \<Rightarrow> ball" where
  "ballAt x y vx vy w =
     \<lparr>btype = ''red'', isPocketed = False,
      body = \<lparr>bodyId = 0, position = \<lparr>X = x, Y = y\<rparr>, velocity = \<lparr>X = vx, Y = vy\<rparr>,
               angularVelocity = w, force = \<lparr>X = 0, Y = 0\<rparr>\<rparr>,
      rollResistanceCoefficient = 0.0012, spinDecayRate = 0.985, currentSpin = None\<rparr>"

text \<open>A ball just above the rest threshold, one below it that still spins, and one that
  spins on the spot.\<close>

definition driftingBall :: ball where
  "driftingBall = ballAt 300 300 0.0501 0 0"

definition crawlingBall :: ball where
  "crawlingBall = ballAt 300 300 0.03 0 0.5"

definition spinningBall :: ball where
  "spinningBall = ballAt 300 300 0 0 0.5"

text \<open>Three balls on the horizontal line through the centre of the top-left corner pocket
  of \<open>table0\<close>, which is at \<open>(60481 / 170, 2681 / 170)\<close>, all moving to the right at speed 6:
  one unit left of the centre, half a unit left of it, and half a unit right of it.\<close>

definition farBall :: ball where
  "farBall = ballAt (60481 / 170 - 1) (2681 / 170) 6 0 0"

definition closerBall :: ball where
  "closerBall = ballAt (60481 / 170 - 1 / 2) (2681 / 170) 6 0 0"

definition nearBall :: ball where
  "nearBall = ballAt (60481 / 170 + 1 / 2) (2681 / 170) 6 0 0"

text \<open>The magnitude of the shot impulse in the words of the specification:
  \<open>(pullback / maxPullback) \<times> power \<times> maxPower\<close>.\<close>

definition shotForce :: "cue \<Rightarrow> real" where
  "shotForce c = pullback c / maxPullback c * cuePower c * maxPower c"

text \<open>The cue of the sketch while the player aims with a pullback of 50, and a cue ball
  at rest on the table.\<close>

definition aimingCue :: cue where
  "aimingCue = Cue\<lparr>isAiming := True, isVisible := True, pullback := 50\<rparr>"

definition restingCueBall :: ball where
  "restingCueBall = (ballAt 550 300 0 0 0)\<lparr>btype := ''cue''\<rparr>"

text \<open>A world that holds three bodies, the first of them the body of \<open>restingCueBall\<close>.\<close>

definition world3 :: world where
  "world3 = \<lparr>bodies = [0, 1, 2], nextBodyId = 3\<rparr>"

text \<open>
  A frame in play on \<open>table0\<close>, as mode 1 and the placement of the cue ball at \<open>(550, 300)\<close>
  in the D zone leave it: the fifteen reds (references 0 to 14) on the rack, the colours
  (15 to 20) on their spots, the cue ball (21), all at rest; the bodies are the ones the
  respawns have created (identities 22 to 43).
\<close>

definition frameType :: "nat \<Rightarrow> string" where
  "frameType r =
     (if r < 15 then ''red'' else if r = 15 then ''yellow'' else if r = 16 then ''green''
      else if r = 17 then ''brown'' else if r = 18 then ''blue'' else if r = 19 then ''pink''
      else if r = 20 then ''black'' else ''cue'')"

definition framePosition :: "nat \<Rightarrow> vec" where
  "framePosition r =
     (if r < 15 then getRedBallPositions table0 ! r
      else if r < 21 then getBallSpot table0 (frameType r)
      else \<lparr>X = 550, Y = 300\<rparr>)"

definition frameBall :: "nat \<Rightarrow> ball" where
  "frameBall r =
     \<lparr>btype = frameType r, isPocketed = False,
      body = \<lparr>bodyId = r + 22, position = framePosition r, velocity = \<lparr>X = 0, Y = 0\<rparr>,
               angularVelocity = 0, force = \<lparr>X = 0, Y = 0\<rparr>\<rparr>,
      rollResistanceCoefficient = 0.0012, spinDecayRate = 0.985, currentSpin = None\<rparr>"

definition frameGame :: game where
  "frameGame =
     \<lparr>world = \<lparr>bodies = [22..<44], nextBodyId = 44\<rparr>, table = table0,
      cue = Cue\<lparr>isVisible := True\<rparr>, heap = frameBall,
      balls = [0..<22], redBalls = [0..<15], coloredBalls = [15..<21], cueBall = 21,
      gameMode = 1, cueBallPlaced = True, placingCueBall = False, lastPottedBalls = [],
      message = Text ''Cue ball placed! Click and drag to aim and shoot'',
      timers = [], rng = (\<lambda>n. 0), rngPos = 0\<rparr>"


section \<open>Properties\<close>

subsection \<open>Distances and speeds\<close>

lemma speedOf_nonneg: "0 \<le> speedOf v"
  by (simp add: speedOf_def)

lemma speedOf_axis: "speedOf \<lparr>X = a, Y = 0\<rparr> = \<bar>a\<bar>"
  by (simp add: speedOf_def)

lemma speedOf_zero_iff: "speedOf v = 0 \<longleftrightarrow> X v = 0 \<and> Y v = 0"
  by (simp add: speedOf_def sum_squares_eq_zero_iff)

lemma sqrt_less_iff_sq: "0 \<le> y \<Longrightarrow> sqrt x < y \<longleftrightarrow> x < y * y"
proof -
  assume y: "0 \<le> y"
  have "sqrt x < y \<longleftrightarrow> sqrt x < sqrt (y * y)" using y by simp
  also have "\<dots> \<longleftrightarrow> x < y * y" by (rule real_sqrt_less_iff)
  finally show ?thesis .
qed

lemma distp_less_iff:
  "0 \<le> t \<Longrightarrow> distp a b c d < t \<longleftrightarrow> (c - a) * (c - a) + (d - b) * (d - b) < t * t"
  by (simp add: distp_def sqrt_less_iff_sq)

lemma pockets_table0:
  "pockets table0 =
    [\<lparr>X = 60481 / 170, Y = 2681 / 170, radius = 327 / 17, ptype = ''corner''\<rparr>,
     \<lparr>X = 126519 / 170, Y = 2681 / 170, radius = 327 / 17, ptype = ''corner''\<rparr>,
     \<lparr>X = 60481 / 170, Y = 136719 / 170, radius = 327 / 17, ptype = ''corner''\<rparr>,
     \<lparr>X = 126519 / 170, Y = 136719 / 170, radius = 327 / 17, ptype = ''corner''\<rparr>,
     \<lparr>X = 350, Y = 410, radius = 396 / 17, ptype = ''middle''\<rparr>,
     \<lparr>X = 750, Y = 410, radius = 396 / 17, ptype = ''middle''\<rparr>]"
  by (simp add: table0_def SnookerTable_def initializePockets_def Let_def)

subsection \<open>Rolling deceleration\<close>

lemma drifting_velocity:
  "velocity (body (applyProfessionalDeceleration driftingBall)) = \<lparr>X = 0.0501 * 0.998, Y = 0\<rparr>"
  by (simp add: applyProfessionalDeceleration_def driftingBall_def ballAt_def speedOf_axis
      Body_setVelocity_def Let_def)

text \<open>A ball whose speed is exactly zero is left as it is, whatever its angular velocity:
  neither branch of the speed test is taken.\<close>

lemma spinning_at_rest_unchanged:
  "velocity (body b) = \<lparr>X = 0, Y = 0\<rparr> \<Longrightarrow> applyProfessionalDeceleration b = b"
  by (simp add: applyProfessionalDeceleration_def speedOf_def Let_def)

text \<open>
  C2, as stated, fails: a ball on the table rolling at speed 0.0501 is slowed by the factor
  0.998 to speed 0.04999998, which is below 0.05, and its velocity is not zero after that
  step: the snap to rest is the other branch of the speed test and is taken on a later
  tick. And a ball that spins on the spot (speed 0, angular velocity 0.5) keeps its angular
  velocity, since the snap is taken for a positive speed only.
\<close>

theorem rest_after_step_counterexample:
  "\<not> isPocketed driftingBall \<and>
   speedOf (velocity (body (applyProfessionalDeceleration driftingBall))) < 0.05 \<and>
   velocity (body (applyProfessionalDeceleration driftingBall)) \<noteq> \<lparr>X = 0, Y = 0\<rparr> \<and>
   \<not> isPocketed spinningBall \<and>
   speedOf (velocity (body (applyProfessionalDeceleration spinningBall))) < 0.05 \<and>
   angularVelocity (body (applyProfessionalDeceleration spinningBall)) \<noteq> 0"
proof -
  have "applyProfessionalDeceleration spinningBall = spinningBall"
    by (rule spinning_at_rest_unchanged) (simp add: spinningBall_def ballAt_def)
  then have "\<not> isPocketed spinningBall \<and>
     speedOf (velocity (body (applyProfessionalDeceleration spinningBall))) < 0.05 \<and>
     angularVelocity (body (applyProfessionalDeceleration spinningBall)) \<noteq> 0"
    by (simp add: spinningBall_def ballAt_def speedOf_axis)
  moreover have "\<not> isPocketed driftingBall \<and>
     speedOf (velocity (body (applyProfessionalDeceleration driftingBall))) < 0.05 \<and>
     velocity (body (applyProfessionalDeceleration driftingBall)) \<noteq> \<lparr>X = 0, Y = 0\<rparr>"
    by (simp add: drifting_velocity speedOf_axis) (simp add: driftingBall_def ballAt_def)
  ultimately show ?thesis by simp
qed

text \<open>
  C2, amended: for a ball on the table whose speed before the step is at most 0.05, the
  velocity after one deceleration step is exactly zero, and when that speed is positive
  the angular velocity after the step is exactly zero as well.
\<close>

theorem rest_below_threshold:
  assumes "\<not> isPocketed b" and "speedOf (velocity (body b)) \<le> 0.05"
  shows "velocity (body (applyProfessionalDeceleration b)) = \<lparr>X = 0, Y = 0\<rparr> \<and>
         (0 < speedOf (velocity (body b)) \<longrightarrow>
            angularVelocity (body (applyProfessionalDeceleration b)) = 0)"
proof (cases "0 < speedOf (velocity (body b))")
  case True
  with assms show ?thesis
    by (simp add: applyProfessionalDeceleration_def Let_def Body_setVelocity_def
        Body_setAngularVelocity_def)
next
  case False
  then have z: "speedOf (velocity (body b)) = 0"
    using speedOf_nonneg [of "velocity (body b)"] by simp
  then have "X (velocity (body b)) = 0 \<and> Y (velocity (body b)) = 0"
    by (simp add: speedOf_zero_iff)
  then have "velocity (body b) = \<lparr>X = 0, Y = 0\<rparr>" by simp
  with z assms show ?thesis
    by (simp add: applyProfessionalDeceleration_def Let_def)
qed

theorem rest_below_threshold_witness:
  "\<not> isPocketed crawlingBall \<and> speedOf (velocity (body crawlingBall)) \<le> 0.05 \<and>
   0 < speedOf (velocity (body crawlingBall)) \<and> angularVelocity (body crawlingBall) \<noteq> 0 \<and>
   velocity (body (applyProfessionalDeceleration crawlingBall)) = \<lparr>X = 0, Y = 0\<rparr> \<and>
   angularVelocity (body (applyProfessionalDeceleration crawlingBall)) = 0"
proof -
  have h: "\<not> isPocketed crawlingBall" "speedOf (velocity (body crawlingBall)) \<le> 0.05"
    "0 < speedOf (velocity (body crawlingBall))" "angularVelocity (body crawlingBall) \<noteq> 0"
    by (simp_all add: crawlingBall_def ballAt_def speedOf_axis)
  from rest_below_threshold [OF h(1) h(2)] h show ?thesis by simp
qed

subsection \<open>The capture check\<close>

text \<open>The loop of \<open>checkPocket\<close> returns true exactly when some pocket of the list passes
  both tests of the loop body.\<close>

lemma checkPocketLoop_iff:
  "checkPocketLoop pos vel s ps \<longleftrightarrow>
     (\<exists>p\<in>set ps. distp (X pos) (Y pos) (X p) (Y p) < pocketThreshold p s \<and>
        \<not> (X vel * (X p - X pos) + Y vel * (Y p - Y pos) < - 2 \<and> s > 5))"
  by (induction ps) (auto simp: Let_def)

lemma pocketThreshold_factor:
  "\<exists>k. pocketThreshold p s = radius p * (if ptype p = ''corner'' then 0.65 else 0.7) * k \<and>
       (if s > 5 then 0.85 \<le> k \<and> k \<le> 0.95 else k = 1)"
proof (cases "ptype p = ''corner''")
  case corner: True
  show ?thesis
  proof (cases "s > 10")
    case True
    with corner show ?thesis
      by (intro exI [of _ "0.9"]) (simp add: pocketThreshold_def)
  next
    case False
    with corner show ?thesis
      by (intro exI [of _ "if s > 5 then 0.95 else 1"]) (simp add: pocketThreshold_def)
  qed
next
  case middle: False
  show ?thesis
  proof (cases "s > 10")
    case True
    with middle show ?thesis
      by (intro exI [of _ "0.85"]) (simp add: pocketThreshold_def)
  next
    case False
    with middle show ?thesis
      by (intro exI [of _ "if s > 5 then 0.92 else 1"]) (simp add: pocketThreshold_def)
  qed
qed

lemma pocketThreshold_faster:
  "0 < radius p \<Longrightarrow> (s \<le> 5 \<and> 5 < s') \<or> (s \<le> 10 \<and> 10 < s') \<Longrightarrow>
   pocketThreshold p s' < pocketThreshold p s"
  by (auto simp: pocketThreshold_def)

lemma far_captured: "checkPocket farBall (pockets table0)"
proof -
  have "distp (60481 / 170 - 1) (2681 / 170) (60481 / 170) (2681 / 170)
          < pocketThreshold \<lparr>X = 60481 / 170, Y = 2681 / 170, radius = 327 / 17, ptype = ''corner''\<rparr> 6"
    by (subst distp_less_iff) (simp_all add: pocketThreshold_def)
  then show ?thesis
    by (simp add: checkPocket_def farBall_def ballAt_def pockets_table0 speedOf_axis Let_def)
qed

lemma near_not_captured: "\<not> checkPocket nearBall (pockets table0)"
proof -
  have 1: "\<not> distp (60481 / 170 + 1 / 2) (2681 / 170) (126519 / 170) (2681 / 170)
          < pocketThreshold \<lparr>X = 126519 / 170, Y = 2681 / 170, radius = 327 / 17, ptype = ''corner''\<rparr> 6"
    by (subst distp_less_iff) (simp_all add: pocketThreshold_def)
  have 2: "\<not> distp (60481 / 170 + 1 / 2) (2681 / 170) (60481 / 170) (136719 / 170)
          < pocketThreshold \<lparr>X = 60481 / 170, Y = 136719 / 170, radius = 327 / 17, ptype = ''corner''\<rparr> 6"
    by (subst distp_less_iff) (simp_all add: pocketThreshold_def)
  have 3: "\<not> distp (60481 / 170 + 1 / 2) (2681 / 170) (126519 / 170) (136719 / 170)
          < pocketThreshold \<lparr>X = 126519 / 170, Y = 136719 / 170, radius = 327 / 17, ptype = ''corner''\<rparr> 6"
    by (subst distp_less_iff) (simp_all add: pocketThreshold_def)
  have 4: "\<not> distp (60481 / 170 + 1 / 2) (2681 / 170) 350 410
          < pocketThreshold \<lparr>X = 350, Y = 410, radius = 396 / 17, ptype = ''middle''\<rparr> 6"
    by (subst distp_less_iff) (simp_all add: pocketThreshold_def)
  have 5: "\<not> distp (60481 / 170 + 1 / 2) (2681 / 170) 750 410
          < pocketThreshold \<lparr>X = 750, Y = 410, radius = 396 / 17, ptype = ''middle''\<rparr> 6"
    by (subst distp_less_iff) (simp_all add: pocketThreshold_def)
  from 1 2 3 4 5 show ?thesis
    by (simp add: checkPocket_def nearBall_def ballAt_def pockets_table0 speedOf_axis Let_def)
qed

text \<open>
  C3, as stated, fails on the table of the sketch: with the same velocity \<open>(6, 0)\<close>, the
  ball one unit left of the centre of the top-left pocket is captured, and the ball half a
  unit right of that centre, which is closer to it, is not: it moves away from the centre
  (dot product \<open>-3\<close>) at a speed above 5, and no other pocket is near.
\<close>

theorem capture_monotone_counterexample:
  "velocity (body nearBall) = velocity (body farBall) \<and>
   distp (X (position (body nearBall))) (Y (position (body nearBall)))
         (X (hd (pockets table0))) (Y (hd (pockets table0)))
     < distp (X (position (body farBall))) (Y (position (body farBall)))
         (X (hd (pockets table0))) (Y (hd (pockets table0))) \<and>
   checkPocket farBall (pockets table0) \<and> \<not> checkPocket nearBall (pockets table0)"
  using far_captured near_not_captured
  by (simp add: pockets_table0 nearBall_def farBall_def ballAt_def distp_def)

text \<open>
  C3, amended: for every pocket \<open>p\<close> of the list and every fixed velocity, if a ball centre
  at distance \<open>d\<close> from the centre of \<open>p\<close> is within the capture threshold of \<open>p\<close> (as it is
  whenever \<open>p\<close> captures it), then the check returns true for every ball centre at a distance
  \<open>d' < d\<close> from that centre, provided the ball there is not moving away from \<open>p\<close> (dot
  product below \<open>-2\<close>) at a speed above 5; in particular capture is monotonic in the distance
  for speeds up to 5.
\<close>

theorem capture_monotone_not_receding:
  assumes "p \<in> set ps"
    and "velocity (body b') = velocity (body b)"
    and "distp (X (position (body b))) (Y (position (body b))) (X p) (Y p)
           < pocketThreshold p (speedOf (velocity (body b)))"
    and "distp (X (position (body b'))) (Y (position (body b'))) (X p) (Y p)
           < distp (X (position (body b))) (Y (position (body b))) (X p) (Y p)"
    and "\<not> (X (velocity (body b')) * (X p - X (position (body b'))) +
             Y (velocity (body b')) * (Y p - Y (position (body b'))) < - 2 \<and>
            speedOf (velocity (body b')) > 5)"
  shows "checkPocket b' ps"
  unfolding checkPocket_def checkPocketLoop_iff
  using assms by (intro bexI [of _ p]) auto

theorem capture_monotone_not_receding_witness:
  "checkPocket farBall (pockets table0) \<and> checkPocket closerBall (pockets table0)"
proof -
  let ?p = "\<lparr>X = 60481 / 170, Y = 2681 / 170, radius = 327 / 17, ptype = ''corner''\<rparr>"
  have 1: "?p \<in> set (pockets table0)"
    by (simp add: pockets_table0)
  have 2: "velocity (body closerBall) = velocity (body farBall)"
    by (simp add: closerBall_def farBall_def ballAt_def)
  have 3: "distp (X (position (body farBall))) (Y (position (body farBall))) (X ?p) (Y ?p)
             < pocketThreshold ?p (speedOf (velocity (body farBall)))"
    by (subst distp_less_iff)
      (simp_all add: pocketThreshold_def farBall_def ballAt_def speedOf_axis)
  have 4: "distp (X (position (body closerBall))) (Y (position (body closerBall))) (X ?p) (Y ?p)
             < distp (X (position (body farBall))) (Y (position (body farBall))) (X ?p) (Y ?p)"
    by (simp add: closerBall_def farBall_def ballAt_def distp_def)
  have 5: "\<not> (X (velocity (body closerBall)) * (X ?p - X (position (body closerBall))) +
               Y (velocity (body closerBall)) * (Y ?p - Y (position (body closerBall))) < - 2 \<and>
              speedOf (velocity (body closerBall)) > 5)"
    by (simp add: closerBall_def ballAt_def)
  from capture_monotone_not_receding [OF 1 2 3 4 5] far_captured show ?thesis by simp
qed

text \<open>
  C4: the check captures the ball exactly when, for some pocket of the list, the distance
  of the centres is below the threshold of that pocket and the ball is not moving away
  from it (dot product below \<open>-2\<close>) at a speed above 5. The threshold is the radius times
  0.65 (corner) or 0.7 (any other pocket) times a factor that is 1 up to speed 5 and lies
  in \<open>[0.85, 0.95]\<close> above it; and it is strictly smaller above speed 5 than up to it, and
  above speed 10 than up to it.
\<close>

theorem checkPocket_thresholds:
  "(checkPocket b ps \<longleftrightarrow>
      (\<exists>p\<in>set ps.
         distp (X (position (body b))) (Y (position (body b))) (X p) (Y p)
           < pocketThreshold p (speedOf (velocity (body b))) \<and>
         \<not> (X (velocity (body b)) * (X p - X (position (body b))) +
              Y (velocity (body b)) * (Y p - Y (position (body b))) < - 2 \<and>
             speedOf (velocity (body b)) > 5))) \<and>
   (\<exists>k. pocketThreshold q s = radius q * (if ptype q = ''corner'' then 0.65 else 0.7) * k \<and>
        (if s > 5 then 0.85 \<le> k \<and> k \<le> 0.95 else k = 1)) \<and>
   (0 < radius q \<and> ((s \<le> 5 \<and> 5 < s') \<or> (s \<le> 10 \<and> 10 < s')) \<longrightarrow>
      pocketThreshold q s' < pocketThreshold q s)"
proof (intro conjI impI)
  show "checkPocket b ps \<longleftrightarrow>
      (\<exists>p\<in>set ps.
         distp (X (position (body b))) (Y (position (body b))) (X p) (Y p)
           < pocketThreshold p (speedOf (velocity (body b))) \<and>
         \<not> (X (velocity (body b)) * (X p - X (position (body b))) +
              Y (velocity (body b)) * (Y p - Y (position (body b))) < - 2 \<and>
             speedOf (velocity (body b)) > 5))"
    unfolding checkPocket_def by (rule checkPocketLoop_iff)
next
  show "\<exists>k. pocketThreshold q s = radius q * (if ptype q = ''corner'' then 0.65 else 0.7) * k \<and>
        (if s > 5 then 0.85 \<le> k \<and> k \<le> 0.95 else k = 1)"
    by (rule pocketThreshold_factor)
next
  assume "0 < radius q \<and> ((s \<le> 5 \<and> 5 < s') \<or> (s \<le> 10 \<and> 10 < s'))"
  then show "pocketThreshold q s' < pocketThreshold q s"
    using pocketThreshold_faster [of q s s'] by blast
qed

theorem checkPocket_thresholds_witness:
  "checkPocket farBall (pockets table0) \<and>
   (\<exists>p\<in>set (pockets table0).
      distp (X (position (body farBall))) (Y (position (body farBall))) (X p) (Y p)
        < pocketThreshold p (speedOf (velocity (body farBall))) \<and>
      \<not> (X (velocity (body farBall)) * (X p - X (position (body farBall))) +
           Y (velocity (body farBall)) * (Y p - Y (position (body farBall))) < - 2 \<and>
          speedOf (velocity (body farBall)) > 5)) \<and>
   0 < radius (hd (pockets table0)) \<and> (6::real) \<le> 10 \<and> (10::real) < 11 \<and>
   pocketThreshold (hd (pockets table0)) 11 < pocketThreshold (hd (pockets table0)) 6"
proof -
  note T = checkPocket_thresholds [of farBall "pockets table0" "hd (pockets table0)" 6 11]
  have r: "0 < radius (hd (pockets table0))"
    by (simp add: pockets_table0)
  from T far_captured have a: "\<exists>p\<in>set (pockets table0).
      distp (X (position (body farBall))) (Y (position (body farBall))) (X p) (Y p)
        < pocketThreshold p (speedOf (velocity (body farBall))) \<and>
      \<not> (X (velocity (body farBall)) * (X p - X (position (body farBall))) +
           Y (velocity (body farBall)) * (Y p - Y (position (body farBall))) < - 2 \<and>
          speedOf (velocity (body farBall)) > 5)"
    by blast
  from T r have c: "pocketThreshold (hd (pockets table0)) 11 < pocketThreshold (hd (pockets table0)) 6"
    by simp
  from far_captured a r c show ?thesis by simp
qed

subsection \<open>The triangle of reds\<close>

lemma sqrt_square_times: "sqrt (a * a * c) = \<bar>a\<bar> * sqrt c"
  by (simp add: real_sqrt_mult)

lemma rack_square_sum:
  "(- (s / 2)) * (- (s / 2)) + (s * 0.866) * (s * 0.866) = s * s * (0.999956::real)"
  "(s / 2) * (s / 2) + (s * 0.866) * (s * 0.866) = s * s * (0.999956::real)"
  by (simp_all add: field_simps)

lemma rack_distance_left:
  "distp (X (rackPosition t row col)) (Y (rackPosition t row col))
         (X (rackPosition t (Suc row) col)) (Y (rackPosition t (Suc row) col))
   = \<bar>ballRadius t * 2.05\<bar> * sqrt 0.999956"
proof -
  have dx: "X (rackPosition t (Suc row) col) - X (rackPosition t row col)
              = - ((ballRadius t * 2.05) / 2)"
    by (simp add: rackPosition_def Let_def algebra_simps)
  have dy: "Y (rackPosition t (Suc row) col) - Y (rackPosition t row col)
              = (ballRadius t * 2.05) * 0.866"
    by (simp add: rackPosition_def Let_def algebra_simps)
  show ?thesis
    unfolding distp_def dx dy rack_square_sum by (rule sqrt_square_times)
qed

lemma rack_distance_right:
  "distp (X (rackPosition t row col)) (Y (rackPosition t row col))
         (X (rackPosition t (Suc row) (Suc col))) (Y (rackPosition t (Suc row) (Suc col)))
   = \<bar>ballRadius t * 2.05\<bar> * sqrt 0.999956"
proof -
  have dx: "X (rackPosition t (Suc row) (Suc col)) - X (rackPosition t row col)
              = (ballRadius t * 2.05) / 2"
    by (simp add: rackPosition_def Let_def algebra_simps)
  have dy: "Y (rackPosition t (Suc row) (Suc col)) - Y (rackPosition t row col)
              = (ballRadius t * 2.05) * 0.866"
    by (simp add: rackPosition_def Let_def algebra_simps)
  show ?thesis
    unfolding distp_def dx dy rack_square_sum by (rule sqrt_square_times)
qed

lemma sqrt_rack_bounds: "0.99997 \<le> sqrt 0.999956" "sqrt 0.999956 < 1"
proof -
  show "0.99997 \<le> sqrt 0.999956"
    by (rule real_le_rsqrt) (simp add: power2_eq_square)
  show "sqrt 0.999956 < 1"
    by (rule real_less_lsqrt) simp_all
qed

lemma rack_spacing_bound:
  assumes "0 < r"
  shows "\<bar>\<bar>r * 2.05\<bar> * sqrt 0.999956 - 2.05 * r\<bar> \<le> r / 10000"
proof -
  define p :: real where "p = r * sqrt 0.999956"
  have lo: "r * 0.99997 \<le> p"
    unfolding p_def using assms sqrt_rack_bounds(1) by (intro mult_left_mono) simp_all
  have hi: "p < r * 1"
    unfolding p_def using assms sqrt_rack_bounds(2) by (intro mult_strict_left_mono) simp_all
  have eq: "\<bar>r * 2.05\<bar> * sqrt 0.999956 - 2.05 * r = 2.05 * p - 2.05 * r"
    using assms by (simp add: p_def)
  have "\<bar>2.05 * p - 2.05 * r\<bar> \<le> r / 10000"
    using lo hi assms by (simp add: abs_le_iff)
  then show ?thesis unfolding eq .
qed

lemma upt_0_5: "[0..<5] = [0, 1, 2, 3, 4]"
  by (simp add: upt_rec numeral_eq_Suc)


lemma rackRow_nth: "col \<le> row \<Longrightarrow> rackRow t row ! col = rackPosition t row col"
  by (simp add: rackRow_def nth_append)

text \<open>
  C6: the generator returns exactly 15 positions, the five rows of the rack one after the
  other, with 1, 2, 3, 4 and 5 positions (apex row first, base row last); the positions of
  a row share their \<open>y\<close> coordinate; and on a table with a positive ball radius every
  position of the first four rows is at a distance from each of its two neighbours in the
  next row that differs from \<open>2.05 \<times> ballRadius\<close> by at most \<open>ballRadius / 10000\<close>.
\<close>

theorem rack_geometry:
  "length (getRedBallPositions t) = 15 \<and>
   getRedBallPositions t =
     rackRow t 0 @ rackRow t 1 @ rackRow t 2 @ rackRow t 3 @ rackRow t 4 \<and>
   map (\<lambda>row. length (rackRow t row)) [0, 1, 2, 3, 4] = [1, 2, 3, 4, 5] \<and>
   (\<forall>v\<in>set (rackRow t row). Y v = Y (rackRow t row ! 0)) \<and>
   (0 < ballRadius t \<and> row < 4 \<and> col \<le> row \<longrightarrow>
      \<bar>distp (X (rackRow t row ! col)) (Y (rackRow t row ! col))
             (X (rackRow t (Suc row) ! col)) (Y (rackRow t (Suc row) ! col))
         - 2.05 * ballRadius t\<bar> \<le> ballRadius t / 10000 \<and>
      \<bar>distp (X (rackRow t row ! col)) (Y (rackRow t row ! col))
             (X (rackRow t (Suc row) ! Suc col)) (Y (rackRow t (Suc row) ! Suc col))
         - 2.05 * ballRadius t\<bar> \<le> ballRadius t / 10000)"
proof (intro conjI impI ballI)
  show "length (getRedBallPositions t) = 15"
    by (simp add: getRedBallPositions_def rackRow_def upt_rec)
  show "getRedBallPositions t =
     rackRow t 0 @ rackRow t 1 @ rackRow t 2 @ rackRow t 3 @ rackRow t 4"
    by (simp add: getRedBallPositions_def upt_0_5)
  show "map (\<lambda>row. length (rackRow t row)) [0, 1, 2, 3, 4] = [1, 2, 3, 4, 5]"
    by (simp add: rackRow_def)
next
  fix v assume "v \<in> set (rackRow t row)"
  then show "Y v = Y (rackRow t row ! 0)"
    by (auto simp: rackRow_nth) (auto simp: rackRow_def rackPosition_def Let_def)
next
  assume h: "0 < ballRadius t \<and> row < 4 \<and> col \<le> row"
  then show "\<bar>distp (X (rackRow t row ! col)) (Y (rackRow t row ! col))
             (X (rackRow t (Suc row) ! col)) (Y (rackRow t (Suc row) ! col))
         - 2.05 * ballRadius t\<bar> \<le> ballRadius t / 10000"
    using rack_spacing_bound [of "ballRadius t"]
    by (simp only: rackRow_nth le_SucI rack_distance_left)
next
  assume h: "0 < ballRadius t \<and> row < 4 \<and> col \<le> row"
  then show "\<bar>distp (X (rackRow t row ! col)) (Y (rackRow t row ! col))
             (X (rackRow t (Suc row) ! Suc col)) (Y (rackRow t (Suc row) ! Suc col))
         - 2.05 * ballRadius t\<bar> \<le> ballRadius t / 10000"
    using rack_spacing_bound [of "ballRadius t"]
    by (simp only: rackRow_nth Suc_le_mono rack_distance_right)
qed

theorem rack_geometry_witness:
  "0 < ballRadius table0 \<and> (0::nat) < 4 \<and> (0::nat) \<le> 0 \<and>
   rackRow table0 0 = [\<lparr>X = 550, Y = 618\<rparr>] \<and>
   length (getRedBallPositions table0) = 15 \<and>
   \<bar>distp (X (rackRow table0 0 ! 0)) (Y (rackRow table0 0 ! 0))
          (X (rackRow table0 (Suc 0) ! 0)) (Y (rackRow table0 (Suc 0) ! 0))
      - 2.05 * ballRadius table0\<bar> \<le> ballRadius table0 / 10000 \<and>
   \<bar>distp (X (rackRow table0 0 ! 0)) (Y (rackRow table0 0 ! 0))
          (X (rackRow table0 (Suc 0) ! Suc 0)) (Y (rackRow table0 (Suc 0) ! Suc 0))
      - 2.05 * ballRadius table0\<bar> \<le> ballRadius table0 / 10000"
proof -
  have r: "0 < ballRadius table0"
    by (simp add: table0_def SnookerTable_def Let_def)
  have apex: "rackRow table0 0 = [\<lparr>X = 550, Y = 618\<rparr>]"
    by (simp add: rackRow_def rackPosition_def table0_def SnookerTable_def Let_def)
  note G = rack_geometry [of table0 0 0]
  have n: "length (getRedBallPositions table0) = 15"
    by (rule G [THEN conjunct1])
  from G [THEN conjunct2, THEN conjunct2, THEN conjunct2, THEN conjunct2] r have
    "\<bar>distp (X (rackRow table0 0 ! 0)) (Y (rackRow table0 0 ! 0))
          (X (rackRow table0 (Suc 0) ! 0)) (Y (rackRow table0 (Suc 0) ! 0))
      - 2.05 * ballRadius table0\<bar> \<le> ballRadius table0 / 10000 \<and>
     \<bar>distp (X (rackRow table0 0 ! 0)) (Y (rackRow table0 0 ! 0))
          (X (rackRow table0 (Suc 0) ! Suc 0)) (Y (rackRow table0 (Suc 0) ! Suc 0))
      - 2.05 * ballRadius table0\<bar> \<le> ballRadius table0 / 10000"
    by simp
  with r apex n show ?thesis by simp
qed

subsection \<open>The shot\<close>

lemma shoot_fires:
  assumes "isAiming c" "\<not> isPocketed cb" "pullback c > 10"
  shows "\<exists>cb'. fst (snd (shoot c (Some cb) now)) = Some cb' \<and>
           force (body cb') = \<lparr>X = X (force (body cb)) + cos (angle c) * shotForce c,
                                Y = Y (force (body cb)) + sin (angle c) * shotForce c\<rparr>"
  using assms
  by (simp add: shoot_def applyProfessionalSpin_def Let_def applyForce_def Body_applyForce_def
      Body_setAngularVelocity_def applySpinData_def shotForce_def)

lemma shoot_idle:
  assumes "\<not> (isAiming c \<and> \<not> isPocketed cb \<and> pullback c > 10)"
  shows "shoot c (Some cb) now = (c, Some cb, None, [])"
  using assms by (auto simp add: shoot_def)

lemma force_magnitude:
  "sqrt ((cos a * f) * (cos a * f) + (sin a * f) * (sin a * f)) = \<bar>f\<bar>"
proof -
  have "(cos a * f) * (cos a * f) + (sin a * f) * (sin a * f)
          = (f * f) * (cos a * cos a + sin a * sin a)"
    by algebra
  also have "\<dots> = f * f" unfolding sin_cos_squared_add3 by simp
  finally show ?thesis by simp
qed

lemma force_zero:
  assumes "cos a * f = 0" and "sin a * f = 0"
  shows "f = (0::real)"
proof -
  have "\<not> (cos a = 0 \<and> sin a = 0)"
    using sin_zero_abs_cos_one [of a] by auto
  with assms show ?thesis by auto
qed

lemma shotForce_nonneg:
  "0 < maxPullback c \<Longrightarrow> 0 \<le> cuePower c \<Longrightarrow> 0 \<le> maxPower c \<Longrightarrow> 10 < pullback c \<Longrightarrow>
   0 \<le> shotForce c"
  by (simp add: shotForce_def)

text \<open>
  C8: \<open>shoot\<close> applies a force to the cue ball exactly when the cue is aiming, the cue ball
  exists and is not pocketed, and the pullback exceeds 10. When it fires, the force added
  to the cue ball is \<open>shotForce\<close> times the unit vector of the aim angle, so its magnitude
  is \<open>\<bar>shotForce\<bar>\<close>, which is \<open>shotForce\<close> itself for a positive \<open>maxPullback\<close> and
  non-negative \<open>power\<close> and \<open>maxPower\<close>, and the force of the cue ball changes unless
  \<open>shotForce\<close> is zero. Otherwise the cue, the cue ball, the message and the timers are
  unchanged.
\<close>

theorem shoot_force:
  "(isAiming c \<and> \<not> isPocketed cb \<and> pullback c > 10 \<longrightarrow>
      (\<exists>cb'. fst (snd (shoot c (Some cb) now)) = Some cb' \<and>
         force (body cb') = \<lparr>X = X (force (body cb)) + cos (angle c) * shotForce c,
                              Y = Y (force (body cb)) + sin (angle c) * shotForce c\<rparr> \<and>
         (force (body cb') \<noteq> force (body cb) \<longleftrightarrow> shotForce c \<noteq> 0))) \<and>
   sqrt ((cos (angle c) * shotForce c) * (cos (angle c) * shotForce c) +
         (sin (angle c) * shotForce c) * (sin (angle c) * shotForce c)) = \<bar>shotForce c\<bar> \<and>
   (0 < maxPullback c \<and> 0 \<le> cuePower c \<and> 0 \<le> maxPower c \<and> 10 < pullback c \<longrightarrow>
      \<bar>shotForce c\<bar> = shotForce c) \<and>
   (\<not> (isAiming c \<and> \<not> isPocketed cb \<and> pullback c > 10) \<longrightarrow>
      shoot c (Some cb) now = (c, Some cb, None, [])) \<and>
   shoot c None now = (c, None, None, [])"
proof (intro conjI impI)
  assume h: "isAiming c \<and> \<not> isPocketed cb \<and> pullback c > 10"
  then obtain cb' where cb': "fst (snd (shoot c (Some cb) now)) = Some cb'"
    "force (body cb') = \<lparr>X = X (force (body cb)) + cos (angle c) * shotForce c,
                         Y = Y (force (body cb)) + sin (angle c) * shotForce c\<rparr>"
    using shoot_fires [of c cb now] by blast
  have "force (body cb') = force (body cb) \<longleftrightarrow> shotForce c = 0"
  proof
    assume "force (body cb') = force (body cb)"
    then have "X (force (body cb')) = X (force (body cb))"
      and "Y (force (body cb')) = Y (force (body cb))"
      by simp_all
    then have "cos (angle c) * shotForce c = 0" and "sin (angle c) * shotForce c = 0"
      by (simp_all add: cb'(2))
    then show "shotForce c = 0" by (rule force_zero)
  next
    assume "shotForce c = 0"
    then show "force (body cb') = force (body cb)" by (simp add: cb'(2))
  qed
  with cb' show "\<exists>cb'. fst (snd (shoot c (Some cb) now)) = Some cb' \<and>
         force (body cb') = \<lparr>X = X (force (body cb)) + cos (angle c) * shotForce c,
                              Y = Y (force (body cb)) + sin (angle c) * shotForce c\<rparr> \<and>
         (force (body cb') \<noteq> force (body cb) \<longleftrightarrow> shotForce c \<noteq> 0)"
    by blast
next
  show "sqrt ((cos (angle c) * shotForce c) * (cos (angle c) * shotForce c) +
         (sin (angle c) * shotForce c) * (sin (angle c) * shotForce c)) = \<bar>shotForce c\<bar>"
    by (rule force_magnitude)
next
  assume "0 < maxPullback c \<and> 0 \<le> cuePower c \<and> 0 \<le> maxPower c \<and> 10 < pullback c"
  then show "\<bar>shotForce c\<bar> = shotForce c"
    using shotForce_nonneg [of c] by simp
next
  assume "\<not> (isAiming c \<and> \<not> isPocketed cb \<and> pullback c > 10)"
  then show "shoot c (Some cb) now = (c, Some cb, None, [])"
    by (rule shoot_idle)
next
  show "shoot c None now = (c, None, None, [])"
    by (simp add: shoot_def)
qed

theorem shoot_force_witness:
  "isAiming aimingCue \<and> \<not> isPocketed restingCueBall \<and> pullback aimingCue > 10 \<and>
   shotForce aimingCue = 0.005 \<and>
   (\<exists>cb'. fst (snd (shoot aimingCue (Some restingCueBall) 0)) = Some cb' \<and>
          force (body cb') = \<lparr>X = 0.005, Y = 0\<rparr> \<and> force (body cb') \<noteq> force (body restingCueBall)) \<and>
   \<not> isAiming Cue \<and> shoot Cue (Some restingCueBall) 0 = (Cue, Some restingCueBall, None, [])"
proof -
  have a: "isAiming aimingCue \<and> \<not> isPocketed restingCueBall \<and> pullback aimingCue > 10"
    by (simp add: aimingCue_def Cue_def restingCueBall_def ballAt_def)
  have f: "shotForce aimingCue = 0.005"
    by (simp add: shotForce_def aimingCue_def Cue_def)
  have g: "angle aimingCue = 0" "force (body restingCueBall) = \<lparr>X = 0, Y = 0\<rparr>"
    by (simp_all add: aimingCue_def Cue_def restingCueBall_def ballAt_def)
  from shoot_force [of aimingCue restingCueBall 0] a
  obtain cb' where "fst (snd (shoot aimingCue (Some restingCueBall) 0)) = Some cb'"
    "force (body cb') = \<lparr>X = X (force (body restingCueBall)) + cos (angle aimingCue) * shotForce aimingCue,
                         Y = Y (force (body restingCueBall)) + sin (angle aimingCue) * shotForce aimingCue\<rparr>"
    by blast
  then have 1: "\<exists>cb'. fst (snd (shoot aimingCue (Some restingCueBall) 0)) = Some cb' \<and>
          force (body cb') = \<lparr>X = 0.005, Y = 0\<rparr> \<and> force (body cb') \<noteq> force (body restingCueBall)"
    by (simp add: f g)
  have n: "\<not> isAiming Cue" by (simp add: Cue_def)
  with shoot_force [of Cue restingCueBall 0]
  have 2: "shoot Cue (Some restingCueBall) 0 = (Cue, Some restingCueBall, None, [])"
    by blast
  from a f 1 n 2 show ?thesis by blast
qed

subsection \<open>The placement loop and the frame of the setup functions\<close>

lemma fold_preserves:
  assumes "\<And>x h. P h \<Longrightarrow> P (f x h)" and "P g"
  shows "P (fold f xs g)"
  using assms(2) by (induction xs arbitrary: g) (simp_all add: assms(1))



lemma placementLoop_unfold:
  "placementLoop r placed attempts g =
     (if \<not> placed \<and> attempts < 100 then
        (if isValidBallPosition (g\<lparr>rngPos := rngPos g + 2\<rparr>) (drawX g) (drawY g) r
         then placementLoop r True (attempts + 1)
                (onBall (respawn (drawX g) (drawY g)) r (g\<lparr>rngPos := rngPos g + 2\<rparr>))
         else placementLoop r False (attempts + 1) (g\<lparr>rngPos := rngPos g + 2\<rparr>))
      else (g, placed, attempts))"
  by (subst placementLoop.simps) (simp add: random_def drawX_def drawY_def)

lemma placementLoop_placed: "placementLoop r True attempts g = (g, True, attempts)"
  by (subst placementLoop.simps) simp

lemma placementLoop_rule:
  assumes "I g"
    and "\<And>h. I h \<Longrightarrow> I (h\<lparr>rngPos := rngPos h + 2\<rparr>)"
    and "\<And>h x y. I h \<Longrightarrow> isValidBallPosition h x y r \<Longrightarrow> I (onBall (respawn x y) r h)"
  shows "I (fst (placementLoop r placed attempts g))"
  using assms(1)
proof (induction "100 - attempts" arbitrary: attempts g placed)
  case 0
  then show ?case by (subst placementLoop_unfold) auto
next
  case (Suc n)
  show ?case
  proof (cases "\<not> placed \<and> attempts < 100")
    case False
    with Suc.prems show ?thesis by (subst placementLoop_unfold) auto
  next
    case True
    let ?g2 = "g\<lparr>rngPos := rngPos g + 2\<rparr>"
    have I2: "I ?g2" using Suc.prems by (rule assms(2))
    have n: "n = 100 - (attempts + 1)" using Suc.hyps(2) by simp
    show ?thesis
    proof (cases "isValidBallPosition ?g2 (drawX g) (drawY g) r")
      case valid: True
      then have "I (onBall (respawn (drawX g) (drawY g)) r ?g2)"
        using I2 by (intro assms(3))
      with True valid show ?thesis
        by (subst placementLoop_unfold) (simp add: placementLoop_placed)
    next
      case invalid: False
      have "I (fst (placementLoop r False (attempts + 1) ?g2))"
        using Suc.hyps(1) [OF n I2] .
      with True invalid show ?thesis
        by (subst placementLoop_unfold) simp
    qed
  qed
qed









lemma isAiming_updateAngle [simp]: "isAiming (updateAngle c b mx my) = isAiming c"
  by (simp add: updateAngle_def Let_def split: option.split)

lemma isAiming_updatePullback [simp]: "isAiming (updatePullback c b mx my) = isAiming c"
  by (simp add: updatePullback_def Let_def split: option.split)

lemma isAiming_setContactPoint [simp]: "isAiming (setContactPoint c b mx my) = isAiming c"
  by (simp add: setContactPoint_def determineShotType_def Let_def split: option.split)

lemma isAiming_showCue [simp]: "isAiming (showCue c b) = isAiming c"
  by (simp add: showCue_def split: option.split)

lemma isAiming_adjustPower [simp]: "isAiming (adjustPower c d) = isAiming c"
  by (simp add: adjustPower_def)















subsection \<open>The two gates for moving balls\<close>

lemma isAnyBallMoving_iff:
  "isAnyBallMoving g \<longleftrightarrow>
     (\<exists>r\<in>set (balls g). \<not> isPocketed (heap g r) \<and> speedOf (velocity (body (heap g r))) > 0.05)"
  by (simp add: isAnyBallMoving_def isMoving_def list_ex_iff)

lemma Cue_isAnyBallMoving_iff:
  "Cue_isAnyBallMoving (map (heap g) (balls g)) \<longleftrightarrow>
     (\<exists>r\<in>set (balls g). \<not> isPocketed (heap g r) \<and> speedOf (velocity (body (heap g r))) > 0.1)"
  by (auto simp: Cue_isAnyBallMoving_def list_ex_iff)

lemma Cue_moving_implies_moving:
  "Cue_isAnyBallMoving (map (heap g) (balls g)) \<Longrightarrow> isAnyBallMoving g"
  unfolding isAnyBallMoving_iff Cue_isAnyBallMoving_iff by force

lemma speedOf_rest [simp]: "speedOf \<lparr>X = 0, Y = 0\<rparr> = 0"
  by (simp add: speedOf_def)


subsection \<open>The history of potted colours\<close>

lemma btype_onBall_pocket [simp]: "btype (heap (onBall pocket r g) r') = btype (heap g r')"
  by (simp add: onBall_def pocket_def)

lemma lastPottedBalls_onBall [simp]: "lastPottedBalls (onBall m r g) = lastPottedBalls g"
  by (simp add: onBall_def split: prod.split)

lemma btype_handlePocketedBall [simp]:
  "btype (heap (handlePocketedBall r g) r') = btype (heap g r')"
  by (simp add: handlePocketedBall_def Let_def showMessage_def)

lemma history_red:
  "btype (heap g r) = ''red'' \<Longrightarrow> lastPottedBalls (handlePocketedBall r g) = lastPottedBalls g"
  by (simp add: handlePocketedBall_def showMessage_def)

lemma history_cue:
  "btype (heap g r) = ''cue'' \<Longrightarrow> lastPottedBalls (handlePocketedBall r g) = lastPottedBalls g"
  by (simp add: handlePocketedBall_def showMessage_def Let_def)

lemma history_colour:
  assumes "btype (heap g r) \<noteq> ''cue''" and "btype (heap g r) \<noteq> ''red''"
  shows "lastPottedBalls (handlePocketedBall r g) =
           (if length (lastPottedBalls g) \<ge> 2
            then tl (lastPottedBalls g @ [btype (heap g r)])
            else lastPottedBalls g @ [btype (heap g r)])"
  using assms by (simp add: handlePocketedBall_def showMessage_def Let_def)

lemma respawning_not_foul: "Text (t @ '' ball pocketed! Respawning...'') \<noteq> foulMessage"
proof
  assume "Text (t @ '' ball pocketed! Respawning...'') = foulMessage"
  then have "last (t @ '' ball pocketed! Respawning...'') = last ''ERROR: Two consecutive colored balls potted!''"
    by (simp add: foulMessage_def)
  then show False by simp
qed

lemma foul_colour:
  assumes "btype (heap g r) \<noteq> ''cue''" and "btype (heap g r) \<noteq> ''red''"
  shows "message (handlePocketedBall r g) = foulMessage \<longleftrightarrow>
           length (lastPottedBalls (handlePocketedBall r g)) = 2 \<and>
           ''red'' \<notin> set (lastPottedBalls (handlePocketedBall r g))"
  using assms respawning_not_foul
  by (simp add: handlePocketedBall_def showMessage_def Let_def)

lemma history_length: "length (lastPottedBalls g) \<le> 2 \<Longrightarrow> length (lastPottedBalls (handlePocketedBall r g)) \<le> 2"
  by (simp add: handlePocketedBall_def showMessage_def Let_def)

lemma frame_types:
  "btype (heap frameGame 15) = ''yellow''" "btype (heap frameGame 0) = ''red''"
  "btype (heap frameGame 16) = ''green''" "lastPottedBalls frameGame = []"
  by (simp_all add: frameGame_def frameBall_def frameType_def)

lemma consecutive_colours_flagged:
  assumes "btype (heap g r1) \<noteq> ''cue''" "btype (heap g r1) \<noteq> ''red''"
    and "btype (heap g r2) \<noteq> ''cue''" "btype (heap g r2) \<noteq> ''red''"
    and "''red'' \<notin> set (lastPottedBalls g)" and "length (lastPottedBalls g) \<le> 2"
  shows "message (handlePocketedBall r2 (handlePocketedBall r1 g)) = foulMessage"
proof -
  let ?g1 = "handlePocketedBall r1 g"
  let ?h = "lastPottedBalls g"
  have t: "btype (heap ?g1 r2) \<noteq> ''cue''" "btype (heap ?g1 r2) \<noteq> ''red''"
    using assms(3,4) by simp_all
  have h1: "lastPottedBalls ?g1 = (if length ?h = 2 then [?h ! 1, btype (heap g r1)]
                                   else ?h @ [btype (heap g r1)])"
    using assms(1,2,6)
    by (cases ?h; cases "tl ?h") (auto simp: history_colour)
  have r1: "''red'' \<notin> set (lastPottedBalls ?g1)"
    using assms(2,5,6) h1 by (cases ?h; cases "tl ?h") auto
  have l1: "length (lastPottedBalls ?g1) = 1 \<or> length (lastPottedBalls ?g1) = 2"
    using assms(6) h1 by (cases ?h; cases "tl ?h") auto
  have h2: "length (lastPottedBalls (handlePocketedBall r2 ?g1)) = 2"
    using l1 t by (auto simp: history_colour)
  have r2: "''red'' \<notin> set (lastPottedBalls (handlePocketedBall r2 ?g1))"
    using l1 t r1 by (cases "lastPottedBalls ?g1") (auto simp: history_colour)
  from h2 r2 t show ?thesis by (simp add: foul_colour)
qed

text \<open>
  C1 fails on the code in its last part. A coloured pot pushes the kind onto the history,
  capped at two entries (\<open>history_colour\<close>, \<open>history_length\<close>), and raises the advisory exactly when the history
  then holds two entries, none of them red (\<open>foul_colour\<close>), so two coloured pots in a row
  raise it (\<open>consecutive_colours_flagged\<close>). But a red pot leaves the history as it is
  (\<open>history_red\<close>): in the frame \<open>frameGame\<close>, potting the yellow, then a red, then the green
  leaves the history \<open>[yellow, green]\<close> and raises the advisory, although a red was potted
  between the two colours.
\<close>

theorem red_between_colours_flagged:
  "lastPottedBalls frameGame = [] \<and>
   btype (heap frameGame 15) = ''yellow'' \<and> btype (heap frameGame 0) = ''red'' \<and>
   btype (heap frameGame 16) = ''green'' \<and>
   message (handlePocketedBall 15 frameGame) \<noteq> foulMessage \<and>
   lastPottedBalls (handlePocketedBall 16 (handlePocketedBall 0 (handlePocketedBall 15 frameGame)))
     = [''yellow'', ''green''] \<and>
   message (handlePocketedBall 16 (handlePocketedBall 0 (handlePocketedBall 15 frameGame)))
     = foulMessage"
proof -
  let ?g1 = "handlePocketedBall 15 frameGame"
  let ?g2 = "handlePocketedBall 0 ?g1"
  let ?g3 = "handlePocketedBall 16 ?g2"
  have h1: "lastPottedBalls ?g1 = [''yellow'']"
    by (simp add: history_colour frame_types)
  have m1: "message ?g1 \<noteq> foulMessage"
    by (simp add: foul_colour frame_types h1)
  have h2: "lastPottedBalls ?g2 = [''yellow'']"
    by (simp add: history_red frame_types h1)
  have h3: "lastPottedBalls ?g3 = [''yellow'', ''green'']"
    by (simp add: history_colour frame_types h2)
  have m3: "message ?g3 = foulMessage"
    by (simp add: foul_colour frame_types h3)
  from h3 m1 m3 show ?thesis by (simp add: frame_types)
qed

subsection \<open>The world of a reachable state\<close>

lemma worldOk_remove: "worldOk w \<Longrightarrow> worldOk (World_remove w bd)"
  by (auto simp: worldOk_def World_remove_def dest: notin_set_remove1)

lemma worldOk_pocket: "worldOk w \<Longrightarrow> worldOk (snd (pocket (b, w)))"
  by (simp add: pocket_def worldOk_remove)

lemma worldOk_respawn: "worldOk w \<Longrightarrow> worldOk (snd (respawn x y (b, w)))"
proof -
  assume "worldOk w"
  then have "worldOk (World_remove w (body b))" by (rule worldOk_remove)
  then show ?thesis
    by (auto simp: worldOk_def respawn_def Let_def World_add_def Bodies_circle_def
        Body_setVelocity_def Body_setAngularVelocity_def less_Suc_eq)
qed

lemma worldOk_Ball: "worldOk w \<Longrightarrow> worldOk (snd (Ball w x y t))"
  by (auto simp: worldOk_def Ball_def World_add_def Bodies_circle_def less_Suc_eq)

lemma world_onBall: "world (onBall m r g) = snd (m (heap g r, world g))"
  by (simp add: onBall_def split: prod.split)

lemma worldOk_onBall_respawn: "worldOk (world g) \<Longrightarrow> worldOk (world (onBall (respawn x y) r g))"
  by (simp add: world_onBall worldOk_respawn)

lemma worldOk_onBall_pocket: "worldOk (world g) \<Longrightarrow> worldOk (world (onBall pocket r g))"
  by (simp add: world_onBall worldOk_pocket)

lemma worldOk_createBall: "worldOk (world g) \<Longrightarrow> worldOk (world (createBall t r g))"
  using worldOk_remove [OF worldOk_Ball, of "world g" 0 0 t]
  by (simp add: createBall_def split_def)

lemma worldOk_initializeBalls: "worldOk (world g) \<Longrightarrow> worldOk (world (initializeBalls g))"
proof -
  assume w: "worldOk (world g)"
  let ?g1 = "fold (\<lambda>r h. (createBall ''red'' r h)\<lparr>redBalls := redBalls h @ [r]\<rparr>) [0..<15] g"
  have 1: "worldOk (world ?g1)"
    by (rule fold_preserves [where P = "\<lambda>h. worldOk (world h)"])
      (simp_all add: w worldOk_createBall)
  show ?thesis
    by (simp add: initializeBalls_def Let_def 1 worldOk_createBall)
qed

lemma worldOk_start: "worldOk (world (setupSketch rnd))"
proof -
  have "worldOk \<lparr>bodies = [], nextBodyId = 0\<rparr>" by (simp add: worldOk_def)
  then show ?thesis
    unfolding setupSketch_def showMessage_def
    by (simp add: worldOk_initializeBalls)
qed

lemma worldOk_clearAllBalls: "worldOk (world g) \<Longrightarrow> worldOk (world (clearAllBalls g))"
  unfolding clearAllBalls_def
  by (rule fold_preserves [where P = "\<lambda>h. worldOk (world h)"])
    (simp_all add: Let_def worldOk_remove)

lemma worldOk_placeOnSpot: "worldOk (world g) \<Longrightarrow> worldOk (world (placeOnSpot r g))"
  by (simp add: placeOnSpot_def Let_def worldOk_onBall_respawn)

lemma worldOk_placeRandomly: "worldOk (world g) \<Longrightarrow> worldOk (world (placeRandomly r g))"
  unfolding placeRandomly_def
  by (rule placementLoop_rule [where I = "\<lambda>h. worldOk (world h)"])
    (simp_all add: worldOk_onBall_respawn)

lemma worldOk_setups:
  assumes "worldOk (world g)"
  shows "worldOk (world (setupStartingPosition g))"
    and "worldOk (world (setupRandomReds g))"
    and "worldOk (world (setupRandomAll g))"
proof -
  have s: "\<And>f xs h. (\<And>x k. worldOk (world k) \<Longrightarrow> worldOk (world (f x k))) \<Longrightarrow>
             worldOk (world h) \<Longrightarrow> worldOk (world (fold f xs h))"
    by (rule fold_preserves [where P = "\<lambda>h. worldOk (world h)"])
  show "worldOk (world (setupStartingPosition g))"
    unfolding setupStartingPosition_def Let_def
    by (intro s) (simp_all add: assms worldOk_placeOnSpot worldOk_onBall_respawn split_def)
  show "worldOk (world (setupRandomReds g))"
    unfolding setupRandomReds_def Let_def
    by (intro s) (simp_all add: assms worldOk_placeOnSpot worldOk_placeRandomly)
  show "worldOk (world (setupRandomAll g))"
    unfolding setupRandomAll_def
    by (intro s) (simp_all add: assms worldOk_placeRandomly)
qed

lemma worldOk_setupBallsMode: "worldOk (world g) \<Longrightarrow> worldOk (world (setupBallsMode mode g))"
  by (simp add: setupBallsMode_def Let_def showMessage_def worldOk_setups worldOk_clearAllBalls)

lemma worldOk_keyPressed: "worldOk (world g) \<Longrightarrow> worldOk (world (keyPressed k g))"
  by (cases k) (simp_all add: worldOk_setupBallsMode showMessage_def Let_def)

lemma worldOk_mousePressed: "worldOk (world g) \<Longrightarrow> worldOk (world (mousePressed mx my g))"
  by (simp add: mousePressed_def showMessage_def Let_def worldOk_onBall_respawn)

lemma worldOk_handlePocketedBall: "worldOk (world g) \<Longrightarrow> worldOk (world (handlePocketedBall r g))"
  by (simp add: handlePocketedBall_def showMessage_def Let_def worldOk_onBall_pocket)

lemma worldOk_checkPocketedBalls:
  "worldOk (world g) \<Longrightarrow> worldOk (world (checkPocketedBalls g))"
  unfolding checkPocketedBalls_def
  by (rule fold_preserves [where P = "\<lambda>h. worldOk (world h)"])
    (simp_all add: worldOk_handlePocketedBall)

lemma worldOk_draw: "worldOk (world g) \<Longrightarrow> worldOk (world (draw now mx my g))"
proof -
  assume w: "worldOk (world g)"
  let ?g1 = "fold (\<lambda>r h. if \<not> isPocketed (heap h r)
                            then h\<lparr>heap := (heap h)
                                     (r := updateSpinPhysics (applyProfessionalDeceleration (heap h r)) now)\<rparr>
                            else h) (balls g) g"
  have "worldOk (world ?g1)"
    by (rule fold_preserves [where P = "\<lambda>h. worldOk (world h)"]) (simp_all add: w)
  then have "worldOk (world (checkPocketedBalls ?g1))"
    by (rule worldOk_checkPocketedBalls)
  then show ?thesis
    by (simp add: draw_def Let_def)
qed

lemma worldOk_runTask: "worldOk (world g) \<Longrightarrow> worldOk (world (runTask t (g\<lparr>timers := ts\<rparr>)))"
  by (cases t) (simp_all add: worldOk_onBall_respawn split: option.split)

lemma reachable_worldOk: "reachable g \<Longrightarrow> worldOk (world g)"
proof (induction rule: reachable.induct)
  case (start rnd)
  show ?case by (rule worldOk_start)
next
  case (key g k)
  then show ?case by (simp add: worldOk_keyPressed)
next
  case (pressed g mouseX mouseY)
  then show ?case by (simp add: worldOk_mousePressed)
next
  case (moved g mouseX mouseY shiftDown)
  then show ?case by (simp add: mouseMoved_def Let_def)
next
  case (dragged g mouseX mouseY)
  then show ?case by (simp add: mouseDragged_def)
next
  case (released g now)
  then show ?case by (simp add: mouseReleased_def split: prod.split)
next
  case (physics g g')
  then show ?case by (auto simp: physicsStep_def)
next
  case (frame g now mouseX mouseY)
  then show ?case by (simp add: worldOk_draw)
next
  case (timer g delay t)
  then show ?case by (simp add: worldOk_runTask)
qed

subsection \<open>The cue ball in a pocket\<close>


lemma cue_onBall [simp]: "cue (onBall m r g) = cue g"
  by (simp add: onBall_def split: prod.split)




subsection \<open>The validity test and the placement loop\<close>

lemma ballsLoop_iff:
  "ballsLoop g x y r rs \<longleftrightarrow>
     (\<forall>r'\<in>set rs. r' \<noteq> r \<and> \<not> isPocketed (heap g r') \<and> r' \<noteq> cueBall g \<longrightarrow>
        ballRadius (table g) * 2.5
          \<le> distp x y (X (position (body (heap g r')))) (Y (position (body (heap g r')))))"
  by (induction rs) (auto simp: Let_def not_less)

lemma pocketsLoop_iff:
  "pocketsLoop g x y ps \<longleftrightarrow>
     (\<forall>p\<in>set ps. radius p + ballRadius (table g) * 2 \<le> distp x y (X p) (Y p))"
  by (induction ps) (auto simp: Let_def not_less)

lemma isValidBallPosition_iff:
  "isValidBallPosition g x y r \<longleftrightarrow>
     (\<forall>r'\<in>set (balls g). r' \<noteq> r \<and> \<not> isPocketed (heap g r') \<and> r' \<noteq> cueBall g \<longrightarrow>
        ballRadius (table g) * 2.5
          \<le> distp x y (X (position (body (heap g r')))) (Y (position (body (heap g r'))))) \<and>
     (\<forall>p\<in>set (pockets (table g)). radius p + ballRadius (table g) * 2 \<le> distp x y (X p) (Y p))"
  unfolding isValidBallPosition_def ballsLoop_iff pocketsLoop_iff by auto

lemma isValidBallPosition_rngPos [simp]:
  "isValidBallPosition (g\<lparr>rngPos := n\<rparr>) x y r = isValidBallPosition g x y r"
  by (simp add: isValidBallPosition_iff)




lemma fields_onBall [simp]:
  "balls (onBall m r g) = balls g" "table (onBall m r g) = table g"
  "cueBall (onBall m r g) = cueBall g" "rngPos (onBall m r g) = rngPos g"
  by (simp_all add: onBall_def split: prod.split)















subsection \<open>Pocketing a ball\<close>

lemma World_remove_missing: "bodyId bd \<notin> set (bodies w) \<Longrightarrow> World_remove w bd = w"
  by (simp add: World_remove_def remove1_idem)

lemma pocket_twice:
  assumes "distinct (bodies w)"
  shows "pocket (pocket (b, w)) = pocket (b, w)"
proof -
  have "bodyId (body b) \<notin> set (bodies (World_remove w (body b)))"
    using assms by (simp add: World_remove_def)
  then have "World_remove (World_remove w (body b)) (body b) = World_remove w (body b)"
    by (rule World_remove_missing)
  then show ?thesis by (simp add: pocket_def)
qed

text \<open>
  C9: in a world that holds no body twice, calling \<open>pocket()\<close> twice leaves the ball and
  the world as calling it once does: the second call finds the flag set and the body
  missing, and removing a missing body changes nothing. Every state the sketch can reach
  has such a world (every body is added once, by the constructor or by \<open>respawn\<close>), so
  there pocketing any ball twice leaves the whole state as pocketing it once does.
\<close>

theorem pocket_idempotent:
  "(distinct (bodies w) \<longrightarrow> pocket (pocket (b, w)) = pocket (b, w)) \<and>
   (reachable g \<longrightarrow>
      distinct (bodies (world g)) \<and>
      pocket (pocket (heap g r, world g)) = pocket (heap g r, world g) \<and>
      onBall pocket r (onBall pocket r g) = onBall pocket r g)"
proof (intro conjI impI)
  assume "distinct (bodies w)"
  then show "pocket (pocket (b, w)) = pocket (b, w)" by (rule pocket_twice)
next
  assume "reachable g"
  then have "worldOk (world g)" by (rule reachable_worldOk)
  then show d: "distinct (bodies (world g))" by (simp add: worldOk_def)
  then show p: "pocket (pocket (heap g r, world g)) = pocket (heap g r, world g)"
    by (rule pocket_twice)
  obtain b w where bw: "pocket (heap g r, world g) = (b, w)"
    by (cases "pocket (heap g r, world g)")
  with p have "pocket (b, w) = (b, w)" by simp
  with bw show "onBall pocket r (onBall pocket r g) = onBall pocket r g"
    by (simp add: onBall_def)
qed

theorem pocket_idempotent_witness:
  "distinct (bodies world3) \<and>
   pocket (restingCueBall, world3)
     = (restingCueBall\<lparr>isPocketed := True\<rparr>, \<lparr>bodies = [1, 2], nextBodyId = 3\<rparr>) \<and>
   pocket (pocket (restingCueBall, world3)) = pocket (restingCueBall, world3) \<and>
   reachable (keyPressed Digit1 (setupSketch (\<lambda>n. 0))) \<and>
   onBall pocket 0 (onBall pocket 0 (keyPressed Digit1 (setupSketch (\<lambda>n. 0))))
     = onBall pocket 0 (keyPressed Digit1 (setupSketch (\<lambda>n. 0)))"
proof -
  have d: "distinct (bodies world3)" by (simp add: world3_def)
  have e: "pocket (restingCueBall, world3) =
          (restingCueBall\<lparr>isPocketed := True\<rparr>, \<lparr>bodies = [1, 2], nextBodyId = 3\<rparr>)"
    by (simp add: pocket_def World_remove_def world3_def restingCueBall_def ballAt_def)
  have r: "reachable (keyPressed Digit1 (setupSketch (\<lambda>n. 0)))"
    by (intro reachable.key reachable.start)
  note A = pocket_idempotent [where w = world3 and b = restingCueBall, THEN conjunct1, rule_format, OF d]
  note B = pocket_idempotent [where g = "keyPressed Digit1 (setupSketch (\<lambda>n. 0))" and r = 0,
      THEN conjunct2, rule_format, OF r]
  from d e r A B show ?thesis by simp
qed

end
